theory Spec2Isabelle
  imports Complex_Main "HOL-Library.Log_Nat"
begin

section \<open>Values of the host language\<close>

text \<open>
  A value that may be \<open>undefined\<close>, \<open>null\<close> or present. The refresh scheduler returns
  \<open>{ token, refreshToken } | null | undefined\<close>, and the \<open>tokens\<close> field of a sign-in
  result is read with the same three cases.
\<close>

datatype 'a js = Undefined | Null | Val 'a

text \<open>Errors thrown by the code or by its collaborators.\<close>

datatype error =
    SyntaxError
  | TypeError
  | TransportFailure
  | InvalidResult string

text \<open>
  Parsed JSON. An object is an association list; a property read takes the first entry
  with the key.
\<close>

datatype json =
    JNull
  | JBool bool
  | JNum rat
  | JStr string
  | JArr "json list"
  | JObj "(string \<times> json) list"

subsection \<open>Numbers\<close>

text \<open>
  A number of the host language is an IEEE-754 binary64 value: \<open>NaN\<close>, one of the two
  infinities, or a finite value, given by the rational it denotes. The two zeros are not
  told apart: no operation of the source divides by a computed value, so the sign of a
  zero never reaches a result.
\<close>

datatype number = NaN | PosInfinity | NegInfinity | Num rat

definition pow2 :: "int \<Rightarrow> rat" where
  "pow2 k = (if 0 \<le> k then 2 ^ nat k else 1 / 2 ^ nat (- k))"

text \<open>The binary exponent \<open>\<lfloor>log\<^sub>2 m\<rfloor>\<close> of a positive rational.\<close>

definition exponent :: "rat \<Rightarrow> int" where
  "exponent m = (if 1 \<le> m then bitlen \<lfloor>m\<rfloor> - 1 else - bitlen (\<lceil>1 / m\<rceil> - 1))"

definition roundHalfEven :: "rat \<Rightarrow> int" where
  "roundHalfEven q =
     (let f = \<lfloor>q\<rfloor>; r = q - of_int f
      in if r < 1 / 2 then f else if 1 / 2 < r then f + 1 else if even f then f else f + 1)"

text \<open>
  A finite value \<open>Num x\<close> is a double when \<open>toDouble x = Num x\<close>; the operations below
  return only such values. The double nearest to a rational, ties to even: 53 significant bits, exponents from
  -1022 (below which the spacing stays \<open>2\<^sup>-\<^sup>1\<^sup>0\<^sup>7\<^sup>4\<close>) and overflow to an infinity
  when the rounded magnitude reaches \<open>2\<^sup>1\<^sup>0\<^sup>2\<^sup>4\<close>. Every arithmetic operation below
  rounds its exact result this way.
\<close>

definition toDouble :: "rat \<Rightarrow> number" where
  "toDouble x =
     (if x = 0 then Num 0
      else
        (let m = \<bar>x\<bar>;
             e = max (exponent m) (- 1022);
             ulp = pow2 (e - 52);
             r = of_int (roundHalfEven (m / ulp)) * ulp
         in if pow2 1024 \<le> r then (if 0 < x then PosInfinity else NegInfinity)
            else Num (if 0 < x then r else - r)))"

text \<open>The sign of a number that is not \<open>NaN\<close>: 1, 0 or -1.\<close>

definition signOf :: "number \<Rightarrow> rat" where
  "signOf a = (case a of NaN \<Rightarrow> 0 | PosInfinity \<Rightarrow> 1 | NegInfinity \<Rightarrow> - 1 | Num x \<Rightarrow> sgn x)"

definition num_mul :: "number \<Rightarrow> number \<Rightarrow> number" where
  "num_mul a b =
     (if a = NaN \<or> b = NaN then NaN
      else
        (case (a, b) of
           (Num x, Num y) \<Rightarrow> toDouble (x * y)
         | _ \<Rightarrow>
             if signOf a * signOf b = 0 then NaN
             else if 0 < signOf a * signOf b then PosInfinity else NegInfinity))"

definition num_add :: "number \<Rightarrow> number \<Rightarrow> number" where
  "num_add a b =
     (if a = NaN \<or> b = NaN then NaN
      else
        (case (a, b) of
           (Num x, Num y) \<Rightarrow> toDouble (x + y)
         | (Num x, _) \<Rightarrow> b
         | (_, Num y) \<Rightarrow> a
         | _ \<Rightarrow> if a = b then a else NaN))"

definition num_neg :: "number \<Rightarrow> number" where
  "num_neg a =
     (case a of NaN \<Rightarrow> NaN | PosInfinity \<Rightarrow> NegInfinity | NegInfinity \<Rightarrow> PosInfinity
      | Num x \<Rightarrow> Num (- x))"

definition num_sub :: "number \<Rightarrow> number \<Rightarrow> number" where
  "num_sub a b = num_add a (num_neg b)"

definition num_div10 :: "number \<Rightarrow> number" where
  \<comment> \<open>\<open>a / 10\<close>, the only division of the source\<close>
  "num_div10 a = (case a of Num x \<Rightarrow> toDouble (x / 10) | _ \<Rightarrow> a)"

text \<open>\<open>a < b\<close>; every comparison with \<open>NaN\<close> is false.\<close>

definition num_less :: "number \<Rightarrow> number \<Rightarrow> bool" where
  "num_less a b =
     (if a = NaN \<or> b = NaN then False
      else
        (case (a, b) of
           (Num x, Num y) \<Rightarrow> x < y
         | _ \<Rightarrow> a \<noteq> b \<and> (a = NegInfinity \<or> b = PosInfinity)))"

definition num_gt :: "number \<Rightarrow> number \<Rightarrow> bool" where
  "num_gt a b = num_less b a"

definition Math_min :: "number \<Rightarrow> number \<Rightarrow> number" where
  "Math_min a b = (if a = NaN \<or> b = NaN then NaN else if num_less b a then b else a)"

definition Math_max :: "number \<Rightarrow> number \<Rightarrow> number" where
  "Math_max a b = (if a = NaN \<or> b = NaN then NaN else if num_less a b then b else a)"

subsection \<open>Strings\<close>

fun startsWith :: "string \<Rightarrow> string \<Rightarrow> bool" where
  "startsWith s [] = True"
| "startsWith [] (c # cs) = False"
| "startsWith (d # ds) (c # cs) = (d = c \<and> startsWith ds cs)"

fun str_includes :: "string \<Rightarrow> string \<Rightarrow> bool" where
  "str_includes [] sub = (sub = [])"
| "str_includes (c # cs) sub = (startsWith (c # cs) sub \<or> str_includes cs sub)"

definition endsWith :: "string \<Rightarrow> string \<Rightarrow> bool" where
  "endsWith s suf = (length suf \<le> length s \<and> drop (length s - length suf) s = suf)"

subsection \<open>Property access on parsed JSON\<close>

text \<open>
  \<open>v.k\<close> for a value \<open>v\<close> that may be \<open>undefined\<close> (\<open>None\<close>): reading a property of
  \<open>undefined\<close> or \<open>null\<close> throws; an object yields the entry or \<open>undefined\<close>; any other
  JSON value has no such property.
\<close>

fun getProp :: "json option \<Rightarrow> string \<Rightarrow> error + json option" where
  "getProp None k = Inl TypeError"
| "getProp (Some JNull) k = Inl TypeError"
| "getProp (Some (JObj fs)) k = Inr (map_of fs k)"
| "getProp (Some v) k = Inr None"

fun assign :: "string \<Rightarrow> json \<Rightarrow> (string \<times> json) list \<Rightarrow> (string \<times> json) list" where
  "assign k v [] = [(k, v)]"
| "assign k v ((k', v') # fs) = (if k' = k then (k, v) # fs else (k', v') # assign k v fs)"

text \<open>
  \<open>v.k = x\<close>. The source assigns only after \<open>v.k !== undefined\<close> held, that is on an
  object; the other cases cannot be reached there and are modelled as a throw.
\<close>

fun setProp :: "json option \<Rightarrow> string \<Rightarrow> json \<Rightarrow> error + json" where
  "setProp (Some (JObj fs)) k x = Inr (JObj (assign k x fs))"
| "setProp v k x = Inl TypeError"

section \<open>Data model\<close>

record tokenPair =
  pairToken :: string
  pairRefreshToken :: string

text \<open>The request-scoped cookie view: each of the three cookies is a string or \<open>null\<close>.\<close>

record requestCookies =
  token :: "string option"
  refreshToken :: "string option"
  verifier :: "string option"

text \<open>
  The decoded token payload. A claim the token does not carry is \<open>undefined\<close>, which is
  \<open>NaN\<close> in the arithmetic that reads it; the field holds \<open>NaN\<close> then.
\<close>

record jwtPayload =
  exp_claim :: number
  iat_claim :: number

text \<open>
  The result of the sign-in action, with the fields the source inspects, each by presence.
\<close>

record signInResult =
  redirect :: "string option"
  resultVerifier :: "string option"
  tokens :: "tokenPair js"

record url =
  origin :: string
  pathname :: string
  searchParams :: "(string \<times> string) list"

text \<open>
  A request. \<open>headers\<close> maps lower-case header names to values; \<open>body\<close> is the parsed
  JSON body, \<open>None\<close> when the body is not JSON (\<open>request.json()\<close> rejects).
\<close>

record request =
  requestMethod :: string
  url :: url
  headers :: "(string \<times> string) list"
  body :: "json option"

text \<open>
  One call of the backend action invoker: action name, arguments, and the options
  \<open>url\<close> and \<open>token\<close>.
\<close>

datatype call = FetchAction string "json option" "string option" "string option"

text \<open>
  The collaborators that are not part of the two source files, taken as parameters:
  the cross-origin classifier, the backend action invoker (\<open>Inl\<close> when the call throws,
  \<open>Inr None\<close> for a \<open>null\<close> result), the token decoder (\<open>None\<close> when it throws) and
  the value of \<open>Date.now()\<close>.
\<close>

record env =
  isCorsRequest :: "request \<Rightarrow> bool"
  fetchAction :: "call \<Rightarrow> error + signInResult option"
  jwtDecode :: "string \<Rightarrow> jwtPayload option"
  now :: number

datatype cookieWrite = Untouched | Assigned "string js"

record responseCookies =
  tokenCookie :: cookieWrite
  refreshTokenCookie :: cookieWrite
  verifierCookie :: cookieWrite

datatype content = Text string | Json json

record response =
  status :: nat
  content :: content
  location :: "url option"
  cookies :: responseCookies

record proxyOptions =
  convexUrl :: "string option"
  verbose :: "bool option"

section \<open>Responses and cookies\<close>

definition noCookies :: responseCookies where
  "noCookies = \<lparr>tokenCookie = Untouched, refreshTokenCookie = Untouched, verifierCookie = Untouched\<rparr>"

definition textResponse :: "string \<Rightarrow> nat \<Rightarrow> response" where
  \<comment> \<open>\<open>new Response(text, { status })\<close>; the status defaults to 200\<close>
  "textResponse t s = \<lparr>status = s, content = Text t, location = None, cookies = noCookies\<rparr>"

definition stringifiedResponse :: "json \<Rightarrow> response" where
  \<comment> \<open>\<open>new Response(JSON.stringify(v))\<close>\<close>
  "stringifiedResponse v = \<lparr>status = 200, content = Json v, location = None, cookies = noCookies\<rparr>"

definition redirectResponse :: "url \<Rightarrow> response" where
  \<comment> \<open>\<open>NextResponse.redirect(u)\<close>: a temporary redirect to \<open>u\<close>\<close>
  "redirectResponse u = \<lparr>status = 307, content = Text [], location = Some u, cookies = noCookies\<rparr>"

text \<open>
  Modelled from the spec: \<open>jsonResponse\<close> of \<open>utils.js\<close> is not among the source files.
  The spec gives the proxy's success responses as \<open>200\<close> with a JSON body.
\<close>

definition jsonResponse :: "json \<Rightarrow> response" where
  "jsonResponse v = \<lparr>status = 200, content = Json v, location = None, cookies = noCookies\<rparr>"

text \<open>
  Modelled from the spec: \<open>setAuthCookies\<close> of \<open>utils.js\<close> is not among the source files.
  With \<open>null\<close> it clears all three auth cookies; with a pair it writes the pair to the
  \<open>token\<close> and \<open>refreshToken\<close> cookies (the spec does not have the verifier invalidated).
\<close>

definition setAuthCookies :: "response \<Rightarrow> tokenPair option \<Rightarrow> response" where
  "setAuthCookies r t =
     (case t of
        None \<Rightarrow>
          r\<lparr>cookies := \<lparr>tokenCookie = Assigned Null, refreshTokenCookie = Assigned Null,
                         verifierCookie = Assigned Null\<rparr>\<rparr>
      | Some p \<Rightarrow>
          r\<lparr>cookies := (cookies r)\<lparr>tokenCookie := Assigned (Val (pairToken p)),
                                     refreshTokenCookie := Assigned (Val (pairRefreshToken p))\<rparr>\<rparr>)"

text \<open>\<open>getResponseCookies(response).verifier = v\<close>, with \<open>v\<close> a string or \<open>undefined\<close>.\<close>

definition setVerifierCookie :: "response \<Rightarrow> string option \<Rightarrow> response" where
  "setVerifierCookie r v =
     r\<lparr>cookies := (cookies r)\<lparr>verifierCookie :=
          Assigned (case v of None \<Rightarrow> Undefined | Some s \<Rightarrow> Val s)\<rparr>\<rparr>"

section \<open>The request authenticator (request.ts)\<close>

text \<open>
  Modelled from the spec: \<open>getRequestCookies\<close> of \<open>cookies.js\<close> is not among the source
  files. The spec has one request-scoped cookie view, read through every accessor; the
  functions of this theory take the current view as an argument.
\<close>

definition getRequestCookies :: "requestCookies \<Rightarrow> requestCookies" where
  [simp]: "getRequestCookies current = current"

text \<open>
  Modelled from the spec: \<open>getRequestCookiesInMiddleware\<close> of \<open>cookies.js\<close> is not among
  the source files. It gives the request-scoped mutable view of the request, the same view
  that \<open>getRequestCookies\<close> reads; an assignment to one of its fields is an update of the
  view.
\<close>

definition getRequestCookiesInMiddleware :: "request \<Rightarrow> requestCookies \<Rightarrow> requestCookies" where
  [simp]: "getRequestCookiesInMiddleware r current = current"

text \<open>\<open>validateCors\<close>: the cookie view after the call.\<close>

definition validateCors :: "env \<Rightarrow> request \<Rightarrow> requestCookies \<Rightarrow> requestCookies" where
  "validateCors e r c =
     (if isCorsRequest e r
      then (getRequestCookiesInMiddleware r c)
             \<lparr>token := None, refreshToken := None, verifier := None\<rparr>
      else c)"

definition REQUIRED_TOKEN_LIFETIME_MS :: rat where
  "REQUIRED_TOKEN_LIFETIME_MS = 60000"

definition MINIMUM_REQUIRED_TOKEN_LIFETIME_MS :: rat where
  "MINIMUM_REQUIRED_TOKEN_LIFETIME_MS = 10000"

definition decodeToken :: "env \<Rightarrow> string \<Rightarrow> jwtPayload option" where
  \<comment> \<open>\<open>try { return jwtDecode(token) } catch { return null }\<close>\<close>
  "decodeToken e t = jwtDecode e t"

definition totalTokenLifetimeMs :: "jwtPayload \<Rightarrow> number" where
  "totalTokenLifetimeMs d =
     num_sub (num_mul (exp_claim d) (Num 1000)) (num_mul (iat_claim d) (Num 1000))"

definition minimumExpiration :: "env \<Rightarrow> jwtPayload \<Rightarrow> number" where
  "minimumExpiration e d =
     num_add (now e)
       (Math_min (Num REQUIRED_TOKEN_LIFETIME_MS)
          (Math_max (Num MINIMUM_REQUIRED_TOKEN_LIFETIME_MS)
             (num_div10 (totalTokenLifetimeMs d))))"

definition refreshCall :: "string \<Rightarrow> call" where
  "refreshCall rt =
     FetchAction ''auth:signIn'' (Some (JObj [(''refreshToken'', JStr rt)])) None None"

text \<open>
  The body of the \<open>try\<close> block of \<open>getRefreshedTokens\<close>: the call, the check of the
  result, and the value returned. Reading \<open>tokens\<close> of a \<open>null\<close> result throws.
\<close>

definition refreshAttempt :: "env \<Rightarrow> string \<Rightarrow> error + tokenPair js" where
  "refreshAttempt e rt =
     (case fetchAction e (refreshCall rt) of
        Inl err \<Rightarrow> Inl err
      | Inr None \<Rightarrow> Inl TypeError
      | Inr (Some result) \<Rightarrow>
          if tokens result = Undefined
          then Inl (InvalidResult ''Invalid `signIn` action result for token refresh'')
          else Inr (tokens result))"

text \<open>
  \<open>getRefreshedTokens\<close>: the value returned and the backend calls made, in order.
  The \<open>catch\<close> block turns every error of the \<open>try\<close> block into \<open>null\<close>.
\<close>

definition getRefreshedTokens :: "env \<Rightarrow> requestCookies \<Rightarrow> tokenPair js \<times> call list" where
  "getRefreshedTokens e c =
     (let cookies = getRequestCookies c
      in if refreshToken cookies = None \<and> token cookies = None then (Undefined, [])
         else if refreshToken cookies = None \<or> token cookies = None then (Null, [])
         else
           (case decodeToken e (the (token cookies)) of
              None \<Rightarrow> (Null, [])
            | Some decodedToken \<Rightarrow>
                if num_gt (num_mul (exp_claim decodedToken) (Num 1000))
                     (minimumExpiration e decodedToken)
                then (Undefined, [])
                else
                  (case refreshAttempt e (the (refreshToken cookies)) of
                     Inr t \<Rightarrow> (t, [refreshCall (the (refreshToken cookies))])
                   | Inl err \<Rightarrow> (Null, [refreshCall (the (refreshToken cookies))]))))"

definition exchangeCall :: "string \<Rightarrow> string option \<Rightarrow> call" where
  \<comment> \<open>\<open>{ params: { code }, verifier }\<close>; an \<open>undefined\<close> verifier is no entry\<close>
  "exchangeCall code v =
     FetchAction ''auth:signIn''
       (Some (JObj ((''params'', JObj [(''code'', JStr code)]) #
                    (case v of None \<Rightarrow> [] | Some s \<Rightarrow> [(''verifier'', JStr s)]))))
       None None"

text \<open>The body of the \<open>try\<close> block of the code exchange, up to the tokens to store.\<close>

definition exchangeAttempt :: "env \<Rightarrow> string \<Rightarrow> string option \<Rightarrow> error + tokenPair option" where
  "exchangeAttempt e code v =
     (case fetchAction e (exchangeCall code v) of
        Inl err \<Rightarrow> Inl err
      | Inr None \<Rightarrow> Inl TypeError
      | Inr (Some result) \<Rightarrow>
          (case tokens result of
             Undefined \<Rightarrow> Inl (InvalidResult ''Invalid `signIn` action result for code exchange'')
           | Null \<Rightarrow> Inr None
           | Val p \<Rightarrow> Inr (Some p)))"

definition searchParams_get :: "url \<Rightarrow> string \<Rightarrow> string option" where
  "searchParams_get u k = map_of (searchParams u) k"

definition searchParams_delete :: "url \<Rightarrow> string \<Rightarrow> url" where
  "searchParams_delete u k = u\<lparr>searchParams := filter (\<lambda>p. fst p \<noteq> k) (searchParams u)\<rparr>"

definition headers_get :: "request \<Rightarrow> string \<Rightarrow> string option" where
  "headers_get r k = map_of (headers r) k"

text \<open>
  The condition of the code exchange: \<open>code\<close> is truthy (present and not empty), the
  method is GET, and the \<open>accept\<close> header is present and includes \<open>text/html\<close>.
\<close>

definition codeExchangeRequested :: "request \<Rightarrow> bool" where
  "codeExchangeRequested r =
     ((case searchParams_get (url r) ''code'' of None \<Rightarrow> False | Some code \<Rightarrow> code \<noteq> []) \<and>
      requestMethod r = ''GET'' \<and>
      (case headers_get r ''accept'' of None \<Rightarrow> False | Some a \<Rightarrow> str_includes a ''text/html''))"

datatype authResult = Redirect response | RefreshTokens "tokenPair js"

text \<open>
  What one run of the authenticator leaves behind: the value returned, the cookie view
  after the run, and the backend calls made, in order.
\<close>

record authRun =
  returned :: authResult
  view :: requestCookies
  calls :: "call list"

definition handleAuthenticationInRequest :: "env \<Rightarrow> request \<Rightarrow> requestCookies \<Rightarrow> authRun" where
  "handleAuthenticationInRequest e r c0 =
     (let requestUrl = url r;
          c = validateCors e r c0;
          (refreshTokens, refreshCalls) = getRefreshedTokens e c
      in if codeExchangeRequested r
         then
           (let code = the (searchParams_get requestUrl ''code'');
                v = verifier (getRequestCookies c);
                redirectUrl = searchParams_delete requestUrl ''code''
            in (case exchangeAttempt e code v of
                  Inr t \<Rightarrow>
                    \<lparr>returned = Redirect (setAuthCookies (redirectResponse redirectUrl) t),
                     view = c, calls = refreshCalls @ [exchangeCall code v]\<rparr>
                | Inl err \<Rightarrow>
                    \<lparr>returned = Redirect (setAuthCookies (redirectResponse redirectUrl) None),
                     view = c, calls = refreshCalls @ [exchangeCall code v]\<rparr>))
         else \<lparr>returned = RefreshTokens refreshTokens, view = c, calls = refreshCalls\<rparr>)"

section \<open>The action proxy\<close>

text \<open>
  \<open>const { action, args } = await request.json()\<close> on the parsed body: destructuring
  \<open>null\<close> throws; an object gives its two entries (or \<open>undefined\<close>); any other JSON
  value gives \<open>undefined\<close> twice.
\<close>

fun destructure :: "json \<Rightarrow> error + (json option \<times> json option)" where
  "destructure JNull = Inl TypeError"
| "destructure (JObj fs) = Inr (map_of fs ''action'', map_of fs ''args'')"
| "destructure v = Inr (None, None)"

text \<open>The string a value is strictly equal to, if it is a string at all.\<close>

fun stringValue :: "json option \<Rightarrow> string option" where
  "stringValue (Some (JStr s)) = Some s"
| "stringValue v = None"

datatype prepared = ShortCircuit response | Invoke "json option" "string option"

text \<open>
  Lines 523 to 540: the arguments and the bearer token of the backend call, or the
  response returned at once when the \<open>refreshToken\<close> cookie is missing.
\<close>

definition prepareCall :: "string \<Rightarrow> json option \<Rightarrow> requestCookies \<Rightarrow> error + prepared" where
  "prepareCall action args c =
     (if action = ''auth:signIn''
      then
        (case getProp args ''refreshToken'' of
           Inl err \<Rightarrow> Inl err
         | Inr (Some supplied) \<Rightarrow>
             (case refreshToken (getRequestCookies c) of
                None \<Rightarrow> Inr (ShortCircuit (stringifiedResponse (JObj [(''tokens'', JNull)])))
              | Some rt \<Rightarrow>
                  (case setProp args ''refreshToken'' (JStr rt) of
                     Inl err \<Rightarrow> Inl err
                   | Inr args' \<Rightarrow> Inr (Invoke (Some args') None)))
         | Inr None \<Rightarrow> Inr (Invoke args (token (getRequestCookies c))))
      else Inr (Invoke args (token (getRequestCookies c))))"

text \<open>The sign-in result as the JSON that \<open>JSON.stringify\<close> makes of it.\<close>

definition resultJson :: "signInResult \<Rightarrow> json" where
  "resultJson result =
     JObj ((case redirect result of None \<Rightarrow> [] | Some s \<Rightarrow> [(''redirect'', JStr s)]) @
           (case resultVerifier result of None \<Rightarrow> [] | Some s \<Rightarrow> [(''verifier'', JStr s)]) @
           (case tokens result of
              Undefined \<Rightarrow> []
            | Null \<Rightarrow> [(''tokens'', JNull)]
            | Val p \<Rightarrow>
                [(''tokens'', JObj [(''token'', JStr (pairToken p)),
                                    (''refreshToken'', JStr (pairRefreshToken p))])]))"

text \<open>Lines 550 to 583: the response made of the backend result.\<close>

definition shapeResponse :: "string \<Rightarrow> signInResult option \<Rightarrow> error + response" where
  "shapeResponse action untypedResult =
     (if action = ''auth:signIn''
      then
        (case untypedResult of
           None \<Rightarrow> Inl TypeError
         | Some result \<Rightarrow>
             (case redirect result of
                Some rd \<Rightarrow>
                  Inr (setVerifierCookie (jsonResponse (JObj [(''redirect'', JStr rd)]))
                         (resultVerifier result))
              | None \<Rightarrow>
                  (case tokens result of
                     Val p \<Rightarrow>
                       Inr (setAuthCookies
                              (jsonResponse
                                 (JObj [(''tokens'',
                                         JObj [(''token'', JStr (pairToken p)),
                                               (''refreshToken'', JStr ''dummy'')])]))
                              (Some p))
                   | Null \<Rightarrow>
                       Inr (setAuthCookies (jsonResponse (JObj [(''tokens'', JNull)])) None)
                   | Undefined \<Rightarrow> Inr (jsonResponse (resultJson result)))))
      else Inr (setAuthCookies (jsonResponse JNull) None))"

text \<open>
  \<open>proxyAuthActionToConvex\<close>: the response (or the error that propagates) and the
  backend calls made.
\<close>

definition proxyAuthActionToConvex ::
  "env \<Rightarrow> request \<Rightarrow> proxyOptions \<Rightarrow> requestCookies \<Rightarrow> (error + response) \<times> call list" where
  "proxyAuthActionToConvex e r opts c =
     (if requestMethod r \<noteq> ''POST'' then (Inr (textResponse ''Invalid method'' 405), [])
      else if isCorsRequest e r then (Inr (textResponse ''Invalid origin'' 403), [])
      else
        (case body r of
           None \<Rightarrow> (Inl SyntaxError, [])
         | Some b \<Rightarrow>
             (case destructure b of
                Inl err \<Rightarrow> (Inl err, [])
              | Inr (actionValue, args) \<Rightarrow>
                  if stringValue actionValue \<noteq> Some ''auth:signIn'' \<and>
                     stringValue actionValue \<noteq> Some ''auth:signOut''
                  then (Inr (textResponse ''Invalid action'' 400), [])
                  else
                    (let action = the (stringValue actionValue)
                     in (case prepareCall action args c of
                           Inl err \<Rightarrow> (Inl err, [])
                         | Inr (ShortCircuit resp) \<Rightarrow> (Inr resp, [])
                         | Inr (Invoke args' bearer) \<Rightarrow>
                             (let cl = FetchAction action args' (convexUrl opts) bearer
                              in (case fetchAction e cl of
                                    Inl err \<Rightarrow> (Inl err, [cl])
                                  | Inr untypedResult \<Rightarrow>
                                      (shapeResponse action untypedResult, [cl]))))))))"

definition shouldProxyAuthAction :: "request \<Rightarrow> string \<Rightarrow> bool" where
  "shouldProxyAuthAction r apiRoute =
     (let requestUrl = url r
      in if endsWith apiRoute ''/''
         then pathname requestUrl = apiRoute \<or> pathname requestUrl = butlast apiRoute
         else pathname requestUrl = apiRoute \<or> pathname requestUrl = apiRoute @ ''/'')"

section \<open>Auxiliary notions for the properties\<close>

text \<open>Every value stored under the key \<open>refreshToken\<close>, at any depth of a JSON value.\<close>

fun refreshTokenFields :: "json \<Rightarrow> json list" where
  "refreshTokenFields (JObj fs) =
     concat (map (\<lambda>kv. (if fst kv = ''refreshToken'' then [snd kv] else []) @
                        refreshTokenFields (snd kv)) fs)"
| "refreshTokenFields (JArr vs) = concat (map refreshTokenFields vs)"
| "refreshTokenFields v = []"

text \<open>A route with one trailing slash removed, if it has one.\<close>

definition withoutTrailingSlash :: "string \<Rightarrow> string" where
  "withoutTrailingSlash s = (if endsWith s ''/'' then butlast s else s)"

text \<open>The status of the response of a proxy run, if it responds at all.\<close>

definition repliedStatus :: "(error + response) \<times> call list \<Rightarrow> nat option" where
  "repliedStatus run = (case fst run of Inl err \<Rightarrow> None | Inr resp \<Rightarrow> Some (status resp))"

text \<open>The JSON body of the response of a proxy run, if it has one.\<close>

definition repliedJson :: "(error + response) \<times> call list \<Rightarrow> json option" where
  "repliedJson run =
     (case fst run of
        Inl err \<Rightarrow> None
      | Inr resp \<Rightarrow> (case content resp of Text t \<Rightarrow> None | Json v \<Rightarrow> Some v))"

definition clearedCookies :: responseCookies where
  "clearedCookies =
     \<lparr>tokenCookie = Assigned Null, refreshTokenCookie = Assigned Null,
      verifierCookie = Assigned Null\<rparr>"

definition pairCookies :: "tokenPair \<Rightarrow> responseCookies" where
  "pairCookies p =
     \<lparr>tokenCookie = Assigned (Val (pairToken p)),
      refreshTokenCookie = Assigned (Val (pairRefreshToken p)),
      verifierCookie = Untouched\<rparr>"

subsection \<open>Concrete inputs\<close>

definition exampleUrl :: "string \<Rightarrow> (string \<times> string) list \<Rightarrow> url" where
  "exampleUrl p q = \<lparr>origin = ''https://app.example'', pathname = p, searchParams = q\<rparr>"

definition exampleRequest ::
  "string \<Rightarrow> url \<Rightarrow> (string \<times> string) list \<Rightarrow> json option \<Rightarrow> request" where
  "exampleRequest m u h b = \<lparr>requestMethod = m, url = u, headers = h, body = b\<rparr>"

text \<open>
  An environment whose classifier, backend and decoder answer the same on every input.
\<close>

definition fixedEnv ::
  "bool \<Rightarrow> error + signInResult option \<Rightarrow> jwtPayload option \<Rightarrow> number \<Rightarrow> env" where
  "fixedEnv cors answer payload t =
     \<lparr>isCorsRequest = (\<lambda>r. cors), fetchAction = (\<lambda>cl. answer),
      jwtDecode = (\<lambda>s. payload), now = t\<rparr>"

definition examplePair :: "string \<Rightarrow> string \<Rightarrow> tokenPair" where
  "examplePair t rt = \<lparr>pairToken = t, pairRefreshToken = rt\<rparr>"

definition exampleCookies ::
  "string option \<Rightarrow> string option \<Rightarrow> string option \<Rightarrow> requestCookies" where
  "exampleCookies t rt v = \<lparr>token = t, refreshToken = rt, verifier = v\<rparr>"

definition exampleResult :: "string option \<Rightarrow> string option \<Rightarrow> tokenPair js \<Rightarrow> signInResult" where
  "exampleResult rd v t = \<lparr>redirect = rd, resultVerifier = v, tokens = t\<rparr>"

definition examplePayload :: "number \<Rightarrow> number \<Rightarrow> jwtPayload" where
  "examplePayload ex ia = \<lparr>exp_claim = ex, iat_claim = ia\<rparr>"

text \<open>A number of seconds whose product with 1000 exceeds every finite double.\<close>

definition hugeSeconds :: rat where
  "hugeSeconds = 2 ^ 1020"

definition exampleOptions :: proxyOptions where
  "exampleOptions = \<lparr>convexUrl = None, verbose = None\<rparr>"

section \<open>Arithmetic on integers that doubles hold exactly\<close>

text \<open>
  An integer of magnitude at most \<open>2\<^sup>5\<^sup>3\<close> is a double, and rounding leaves it alone; a
  rational of at least \<open>2\<^sup>1\<^sup>0\<^sup>2\<^sup>4\<close> rounds to infinity.
\<close>

lemma pow2_pos: "0 < pow2 k"
  by (simp add: pow2_def)

lemma roundHalfEven_of_int: "roundHalfEven (of_int k) = k"
  by (simp add: roundHalfEven_def)

lemma roundHalfEven_ge_floor: "\<lfloor>q\<rfloor> \<le> roundHalfEven q"
  by (simp add: roundHalfEven_def Let_def)

lemma exponent_of_int:
  assumes "1 \<le> n"
  shows "exponent (of_int n) = bitlen n - 1"
  using assms by (simp add: exponent_def)

lemma toDouble_of_int:
  assumes "\<bar>n\<bar> \<le> 2 ^ 53"
  shows "toDouble (of_int n) = Num (of_int n)"
proof (cases "n = 0")
  case True
  then show ?thesis by (simp add: toDouble_def)
next
  case False
  define a where "a = \<bar>n\<bar>"
  define e where "e = bitlen a - 1"
  have a: "1 \<le> a" "a \<le> 2 ^ 53" using False assms by (simp_all add: a_def)
  then have "0 < a" by simp
  from bitlen_bounds [OF this]
  have lo: "2 ^ nat e \<le> a" and hi: "a < 2 ^ nat (bitlen a)" by (simp_all add: e_def)
  have e0: "0 \<le> e"
    using \<open>0 < a\<close> by (simp add: e_def bitlen_alt_def)
  have le53: "(2::int) ^ nat e \<le> 2 ^ 53" using lo a by linarith
  have "nat e \<le> 53" by (rule power_le_imp_le_exp [OF _ le53]) simp
  then have e53: "e \<le> 53" by simp
  have ex: "exponent (of_int a) = e"
    using a by (simp add: exponent_of_int e_def)
  have "\<exists>k::int. (of_int a :: rat) / pow2 (e - 52) = of_int k"
  proof (cases "e \<le> 52")
    case True
    then have "pow2 (e - 52) = 1 / 2 ^ nat (52 - e)"
      by (cases "e = 52") (simp_all add: pow2_def)
    then have "(of_int a :: rat) / pow2 (e - 52) = of_int (a * 2 ^ nat (52 - e))"
      by simp
    then show ?thesis by blast
  next
    case False
    with e53 have e: "e = 53" by simp
    with lo a have "a = 2 ^ 53" by simp
    with e have "(of_int a :: rat) / pow2 (e - 52) = of_int (2 ^ 52)"
      by (simp add: pow2_def)
    then show ?thesis by blast
  qed
  then obtain k :: int where k: "(of_int a :: rat) / pow2 (e - 52) = of_int k" by blast
  have r: "(of_int k :: rat) * pow2 (e - 52) = of_int a"
    using k pow2_pos [of "e - 52"] by (simp add: field_simps)
  have "(of_int a :: rat) \<le> 2 ^ 53" using a by (metis of_int_le_iff of_int_numeral of_int_power)
  also have "\<dots> < pow2 1024" by (simp add: pow2_def)
  finally have small: "\<not> pow2 1024 \<le> (of_int a :: rat)" by simp
  have abs: "\<bar>of_int n :: rat\<bar> = of_int a" by (simp add: a_def)
  have nz: "(of_int n :: rat) \<noteq> 0" using False by simp
  have mx: "max e (- 1022) = e" using e0 by simp
  have sgn: "(if 0 < (of_int n :: rat) then of_int a else - of_int a) = (of_int n :: rat)"
    by (simp add: a_def)
  show ?thesis
    unfolding toDouble_def Let_def abs ex mx k roundHalfEven_of_int r
    using nz small sgn by simp
qed

lemma toDouble_int_exact:
  assumes "x \<in> \<int>" and "\<bar>x\<bar> \<le> 9007199254740992"
  shows "toDouble x = Num x"
proof -
  from assms(1) obtain n :: int where x: "x = of_int n" by (auto elim: Ints_cases)
  with assms(2) have "(of_int \<bar>n\<bar> :: rat) \<le> of_int 9007199254740992" by simp
  then have "\<bar>n\<bar> \<le> 9007199254740992" by (simp only: of_int_le_iff)
  then have "\<bar>n\<bar> \<le> 2 ^ 53" by simp
  from toDouble_of_int [OF this] x show ?thesis by simp
qed

lemma toDouble_overflow:
  assumes "pow2 1024 \<le> x"
  shows "toDouble x = PosInfinity"
proof -
  have big: "(2::rat) ^ 1024 \<le> x" using assms by (simp add: pow2_def)
  then have xpos: "0 < x" by (rule less_le_trans [rotated]) simp
  then have m: "\<bar>x\<bar> = x" by simp
  have one: "1 \<le> x" by (rule order_trans [OF _ big]) simp
  define f where "f = \<lfloor>x\<rfloor>"
  define e where "e = bitlen f - 1"
  have "(of_int (2 ^ 1024) :: rat) \<le> x" using big by simp
  then have fbig: "2 ^ 1024 \<le> f" unfolding f_def by (simp only: le_floor_iff)
  then have fpos: "0 < f" by (rule less_le_trans [rotated]) simp
  from bitlen_bounds [OF fpos]
  have lo: "2 ^ nat e \<le> f" and hi: "f < 2 ^ nat (bitlen f)" by (simp_all add: e_def)
  from fbig hi have "(2::int) ^ 1024 < 2 ^ nat (bitlen f)" by linarith
  then have "1024 < nat (bitlen f)" by (rule power_less_imp_less_exp [rotated]) simp
  then have e1024: "1024 \<le> e" by (simp add: e_def)
  have ex: "exponent x = e" using one by (simp add: exponent_def e_def f_def)
  have mx: "max e (- 1022) = e" using e1024 by simp
  have ulp: "pow2 (e - 52) = 2 ^ nat (e - 52)" using e1024 by (simp add: pow2_def)
  have split: "nat e = 52 + nat (e - 52)" using e1024 by simp
  have "(of_int (2 ^ nat e) :: rat) \<le> of_int f" using lo by (simp only: of_int_le_iff)
  also have "(of_int f :: rat) \<le> x" by (simp add: f_def)
  finally have "(2::rat) ^ nat e \<le> x" by simp
  then have "(2::rat) ^ 52 * 2 ^ nat (e - 52) \<le> x"
    by (simp only: split power_add)
  then have "(2::rat) ^ 52 \<le> x / 2 ^ nat (e - 52)"
    by (simp add: pos_le_divide_eq)
  then have "(of_int (2 ^ 52) :: rat) \<le> x / 2 ^ nat (e - 52)" by simp
  then have "2 ^ 52 \<le> \<lfloor>x / 2 ^ nat (e - 52)\<rfloor>" by (simp only: le_floor_iff)
  with roundHalfEven_ge_floor [of "x / 2 ^ nat (e - 52)"]
  have "2 ^ 52 \<le> roundHalfEven (x / 2 ^ nat (e - 52))" by linarith
  then have "(of_int (2 ^ 52) :: rat) \<le> of_int (roundHalfEven (x / 2 ^ nat (e - 52)))"
    by (simp only: of_int_le_iff)
  then have "(2::rat) ^ 52 * 2 ^ nat (e - 52) \<le>
      of_int (roundHalfEven (x / 2 ^ nat (e - 52))) * 2 ^ nat (e - 52)"
    by (simp add: mult_right_mono)
  then have r: "(2::rat) ^ nat e \<le>
      of_int (roundHalfEven (x / 2 ^ nat (e - 52))) * 2 ^ nat (e - 52)"
    by (simp only: split power_add)
  have "(2::rat) ^ 1024 \<le> 2 ^ nat e"
    by (rule power_increasing) (use e1024 in simp_all)
  with r have "pow2 1024 \<le>
      of_int (roundHalfEven (x / 2 ^ nat (e - 52))) * 2 ^ nat (e - 52)"
    by (simp add: pow2_def)
  then show ?thesis
    unfolding toDouble_def Let_def m ex mx ulp using xpos by simp
qed

lemma hugeSeconds_overflows: "pow2 1024 \<le> hugeSeconds * 1000"
proof -
  have "(2::rat) ^ (1020 + 4) = 2 ^ 1020 * 2 ^ 4" by (rule power_add)
  moreover have "(1020::nat) + 4 = 1024" by simp
  ultimately have "(2::rat) ^ 1024 = 2 ^ 1020 * 2 ^ 4" by (simp only:)
  moreover have "(2::rat) ^ 1020 * 2 ^ 4 \<le> 2 ^ 1020 * 1000"
    by (rule mult_left_mono) simp_all
  moreover have "pow2 1024 = 2 ^ 1024" by (simp only: pow2_def) simp
  ultimately show ?thesis by (simp only: hugeSeconds_def)
qed

lemma hugeSeconds_large: "930000 < hugeSeconds * 1000"
proof -
  have "(2::rat) ^ 10 \<le> 2 ^ 1020" by (rule power_increasing) simp_all
  then have "(1024::rat) \<le> hugeSeconds" by (simp only: hugeSeconds_def) simp
  then show ?thesis by simp
qed

lemma num_mul_int:
  assumes "\<bar>a * b\<bar> \<le> 9007199254740992"
  shows "num_mul (Num (of_int a)) (Num (of_int b)) = Num (of_int (a * b))"
proof -
  from assms have "\<bar>a * b\<bar> \<le> 2 ^ 53" by simp
  from toDouble_of_int [OF this] show ?thesis by (simp add: num_mul_def)
qed

lemma num_add_int:
  assumes "\<bar>a + b\<bar> \<le> 9007199254740992"
  shows "num_add (Num (of_int a)) (Num (of_int b)) = Num (of_int (a + b))"
proof -
  from assms have "\<bar>a + b\<bar> \<le> 2 ^ 53" by simp
  from toDouble_of_int [OF this] show ?thesis by (simp add: num_add_def)
qed

lemma num_sub_int:
  assumes "\<bar>a - b\<bar> \<le> 9007199254740992"
  shows "num_sub (Num (of_int a)) (Num (of_int b)) = Num (of_int (a - b))"
proof -
  from assms have "\<bar>a + - b\<bar> \<le> 2 ^ 53" by simp
  from toDouble_of_int [OF this] show ?thesis by (simp add: num_sub_def num_neg_def num_add_def)
qed

lemma num_div10_int:
  assumes "\<bar>k\<bar> \<le> 9007199254740992"
  shows "num_div10 (Num (of_int (10 * k))) = Num (of_int k)"
proof -
  from assms have "\<bar>k\<bar> \<le> 2 ^ 53" by simp
  from toDouble_of_int [OF this] show ?thesis by (simp add: num_div10_def)
qed

lemma NaN_propagates:
  "num_mul NaN b = NaN" "num_add a NaN = NaN" "num_add NaN b = NaN" "num_neg NaN = NaN"
  "num_sub a NaN = NaN" "num_sub NaN b = NaN" "num_div10 NaN = NaN"
  "Math_max a NaN = NaN" "Math_min a NaN = NaN"
  "num_gt a NaN = False" "num_gt NaN b = False"
  by (simp_all add: num_mul_def num_add_def num_neg_def num_sub_def num_div10_def
      Math_max_def Math_min_def num_gt_def num_less_def)

lemma num_gt_int: "num_gt (Num (of_int a)) (Num (of_int b)) \<longleftrightarrow> b < a"
  by (simp add: num_gt_def num_less_def)

lemma Math_max_int: "Math_max (Num (of_int a)) (Num (of_int b)) = Num (of_int (max a b))"
  by (simp add: Math_max_def num_less_def max_def)

lemma Math_min_int: "Math_min (Num (of_int a)) (Num (of_int b)) = Num (of_int (min a b))"
  by (simp add: Math_min_def num_less_def min_def)

text \<open>The facts that evaluate the scheduler on a concrete token and clock.\<close>

lemmas num_eval =
  decodeToken_def minimumExpiration_def
  totalTokenLifetimeMs_def num_gt_def num_less_def num_mul_def num_add_def num_sub_def
  num_neg_def num_div10_def Math_min_def Math_max_def signOf_def
  REQUIRED_TOKEN_LIFETIME_MS_def MINIMUM_REQUIRED_TOKEN_LIFETIME_MS_def toDouble_int_exact

section \<open>Route matching\<close>

lemma endsWith_slash: "endsWith s ''/'' \<longleftrightarrow> s \<noteq> [] \<and> last s = CHR ''/''"
proof (cases s rule: rev_cases)
  case Nil
  then show ?thesis by (simp add: endsWith_def)
next
  case (snoc ys y)
  then show ?thesis by (auto simp: endsWith_def)
qed

lemma endsWith_append_slash: "endsWith (s @ ''/'') ''/''"
  by (simp add: endsWith_slash)

text \<open>
  C10. \<open>shouldProxyAuthAction\<close> holds exactly when the pathname of the request is the
  route without its trailing slash, or that followed by one slash; so a route that does
  not end in a slash and the same route with a slash appended accept the same requests.
\<close>

theorem shouldProxyAuthAction_trailing_slash:
  "(shouldProxyAuthAction r apiRoute \<longleftrightarrow>
      pathname (url r) = withoutTrailingSlash apiRoute \<or>
      pathname (url r) = withoutTrailingSlash apiRoute @ ''/'') \<and>
   (\<not> endsWith apiRoute ''/'' \<longrightarrow>
      shouldProxyAuthAction r (apiRoute @ ''/'') = shouldProxyAuthAction r apiRoute)"
proof (intro conjI impI)
  show "shouldProxyAuthAction r apiRoute \<longleftrightarrow>
      pathname (url r) = withoutTrailingSlash apiRoute \<or>
      pathname (url r) = withoutTrailingSlash apiRoute @ ''/''"
  proof (cases "endsWith apiRoute ''/''")
    case True
    then have "butlast apiRoute @ ''/'' = apiRoute"
      using append_butlast_last_id [of apiRoute] by (simp add: endsWith_slash)
    with True show ?thesis
      by (auto simp: shouldProxyAuthAction_def withoutTrailingSlash_def Let_def)
  next
    case False
    then show ?thesis
      by (auto simp: shouldProxyAuthAction_def withoutTrailingSlash_def Let_def)
  qed
next
  assume "\<not> endsWith apiRoute ''/''"
  then show "shouldProxyAuthAction r (apiRoute @ ''/'') = shouldProxyAuthAction r apiRoute"
    using endsWith_append_slash [of apiRoute]
    by (auto simp: shouldProxyAuthAction_def Let_def)
qed

theorem shouldProxyAuthAction_trailing_slash_witness:
  "\<not> endsWith ''/api/auth'' ''/'' \<and>
   shouldProxyAuthAction (exampleRequest ''POST'' (exampleUrl ''/api/auth/'' []) [] None)
     ''/api/auth'' \<and>
   shouldProxyAuthAction (exampleRequest ''POST'' (exampleUrl ''/api/auth/'' []) [] None)
     ''/api/auth/''"
  using shouldProxyAuthAction_trailing_slash
    [of "exampleRequest ''POST'' (exampleUrl ''/api/auth/'' []) [] None" "''/api/auth''"]
  by (simp add: endsWith_def withoutTrailingSlash_def exampleRequest_def exampleUrl_def)

section \<open>Properties of the action proxy\<close>

lemma proxy_accepted:
  assumes "requestMethod r = ''POST''" and "\<not> isCorsRequest e r"
    and "body r = Some b" and "destructure b = Inr (a, args)"
    and "stringValue a = Some action"
    and "action = ''auth:signIn'' \<or> action = ''auth:signOut''"
  shows "proxyAuthActionToConvex e r opts c =
     (case prepareCall action args c of
        Inl err \<Rightarrow> (Inl err, [])
      | Inr (ShortCircuit resp) \<Rightarrow> (Inr resp, [])
      | Inr (Invoke args' bearer) \<Rightarrow>
          (case fetchAction e (FetchAction action args' (convexUrl opts) bearer) of
             Inl err \<Rightarrow> (Inl err, [FetchAction action args' (convexUrl opts) bearer])
           | Inr untypedResult \<Rightarrow>
               (shapeResponse action untypedResult,
                [FetchAction action args' (convexUrl opts) bearer])))"
  using assms
  by (auto simp: proxyAuthActionToConvex_def Let_def split: sum.splits prepared.splits)

lemma proxy_calls_accepted:
  assumes "snd (proxyAuthActionToConvex e r opts c) \<noteq> []"
  shows "requestMethod r = ''POST'' \<and> \<not> isCorsRequest e r \<and>
     (\<exists>b a args. body r = Some b \<and> destructure b = Inr (a, args) \<and>
        (stringValue a = Some ''auth:signIn'' \<or> stringValue a = Some ''auth:signOut''))"
  using assms
  by (auto simp: proxyAuthActionToConvex_def Let_def
      split: if_splits option.splits sum.splits prod.splits prepared.splits)

text \<open>
  C6. A request whose method is not POST is answered with status 405; a cross-origin POST
  with 403; a same-origin POST whose body has an \<open>action\<close> other than the two recognised
  names with 400. None of the three makes a backend call, and a run that makes one has
  passed all three checks.
\<close>

theorem proxy_rejections:
  "(requestMethod r \<noteq> ''POST'' \<longrightarrow>
      repliedStatus (proxyAuthActionToConvex e r opts c) = Some 405 \<and>
      snd (proxyAuthActionToConvex e r opts c) = []) \<and>
   (requestMethod r = ''POST'' \<and> isCorsRequest e r \<longrightarrow>
      repliedStatus (proxyAuthActionToConvex e r opts c) = Some 403 \<and>
      snd (proxyAuthActionToConvex e r opts c) = []) \<and>
   (requestMethod r = ''POST'' \<and> \<not> isCorsRequest e r \<and> body r = Some b \<and>
    destructure b = Inr (a, args) \<and>
    stringValue a \<noteq> Some ''auth:signIn'' \<and> stringValue a \<noteq> Some ''auth:signOut'' \<longrightarrow>
      repliedStatus (proxyAuthActionToConvex e r opts c) = Some 400 \<and>
      snd (proxyAuthActionToConvex e r opts c) = []) \<and>
   (snd (proxyAuthActionToConvex e r opts c) \<noteq> [] \<longrightarrow>
      requestMethod r = ''POST'' \<and> \<not> isCorsRequest e r \<and>
      (\<exists>b' a' args'. body r = Some b' \<and> destructure b' = Inr (a', args') \<and>
         (stringValue a' = Some ''auth:signIn'' \<or> stringValue a' = Some ''auth:signOut'')))"
proof (intro conjI impI)
  assume "requestMethod r \<noteq> ''POST''"
  then show "repliedStatus (proxyAuthActionToConvex e r opts c) = Some 405"
    and "snd (proxyAuthActionToConvex e r opts c) = []"
    by (simp_all add: proxyAuthActionToConvex_def repliedStatus_def textResponse_def)
next
  assume "requestMethod r = ''POST'' \<and> isCorsRequest e r"
  then show "repliedStatus (proxyAuthActionToConvex e r opts c) = Some 403"
    and "snd (proxyAuthActionToConvex e r opts c) = []"
    by (simp_all add: proxyAuthActionToConvex_def repliedStatus_def textResponse_def)
next
  assume "requestMethod r = ''POST'' \<and> \<not> isCorsRequest e r \<and> body r = Some b \<and>
    destructure b = Inr (a, args) \<and>
    stringValue a \<noteq> Some ''auth:signIn'' \<and> stringValue a \<noteq> Some ''auth:signOut''"
  then show "repliedStatus (proxyAuthActionToConvex e r opts c) = Some 400"
    and "snd (proxyAuthActionToConvex e r opts c) = []"
    by (simp_all add: proxyAuthActionToConvex_def repliedStatus_def textResponse_def)
next
  assume "snd (proxyAuthActionToConvex e r opts c) \<noteq> []"
  then show "requestMethod r = ''POST''" and "\<not> isCorsRequest e r"
    and "\<exists>b' a' args'. body r = Some b' \<and> destructure b' = Inr (a', args') \<and>
         (stringValue a' = Some ''auth:signIn'' \<or> stringValue a' = Some ''auth:signOut'')"
    using proxy_calls_accepted [of e r opts c] by blast+
qed


theorem proxy_rejections_witness:
  "requestMethod (exampleRequest ''GET'' (exampleUrl ''/api/auth'' []) [] None) \<noteq> ''POST'' \<and>
   repliedStatus (proxyAuthActionToConvex (fixedEnv False (Inr None) None (Num 0))
     (exampleRequest ''GET'' (exampleUrl ''/api/auth'' []) [] None)
     exampleOptions (exampleCookies None None None)) = Some 405 \<and>
   isCorsRequest (fixedEnv True (Inr None) None (Num 0))
     (exampleRequest ''POST'' (exampleUrl ''/api/auth'' []) [] None) \<and>
   repliedStatus (proxyAuthActionToConvex (fixedEnv True (Inr None) None (Num 0))
     (exampleRequest ''POST'' (exampleUrl ''/api/auth'' []) [] None)
     exampleOptions (exampleCookies None None None)) = Some 403 \<and>
   destructure (JObj [(''action'', JStr ''bogus'')]) = Inr (Some (JStr ''bogus''), None) \<and>
   repliedStatus (proxyAuthActionToConvex (fixedEnv False (Inr None) None (Num 0))
     (exampleRequest ''POST'' (exampleUrl ''/api/auth'' []) []
        (Some (JObj [(''action'', JStr ''bogus'')])))
     exampleOptions (exampleCookies None None None)) = Some 400 \<and>
   snd (proxyAuthActionToConvex (fixedEnv False (Inr None) None (Num 0))
     (exampleRequest ''POST'' (exampleUrl ''/api/auth'' []) []
        (Some (JObj [(''action'', JStr ''auth:signOut'')])))
     exampleOptions (exampleCookies None None None)) \<noteq> [] \<and>
   requestMethod (exampleRequest ''POST'' (exampleUrl ''/api/auth'' []) []
        (Some (JObj [(''action'', JStr ''auth:signOut'')]))) = ''POST''"
  using
    proxy_rejections [where r = "exampleRequest ''GET'' (exampleUrl ''/api/auth'' []) [] None"
      and e = "fixedEnv False (Inr None) None (Num 0)" and opts = exampleOptions
      and c = "exampleCookies None None None"]
    proxy_rejections [where r = "exampleRequest ''POST'' (exampleUrl ''/api/auth'' []) [] None"
      and e = "fixedEnv True (Inr None) None (Num 0)" and opts = exampleOptions
      and c = "exampleCookies None None None"]
    proxy_rejections [where r = "exampleRequest ''POST'' (exampleUrl ''/api/auth'' []) []
        (Some (JObj [(''action'', JStr ''bogus'')]))"
      and e = "fixedEnv False (Inr None) None (Num 0)" and b = "JObj [(''action'', JStr ''bogus'')]"
      and a = "Some (JStr ''bogus'')" and args = None and opts = exampleOptions
      and c = "exampleCookies None None None"]
    proxy_rejections [where r = "exampleRequest ''POST'' (exampleUrl ''/api/auth'' []) []
        (Some (JObj [(''action'', JStr ''auth:signOut'')]))"
      and e = "fixedEnv False (Inr None) None (Num 0)" and opts = exampleOptions
      and c = "exampleCookies None None None"]
  by (simp add: exampleRequest_def fixedEnv_def proxyAuthActionToConvex_def prepareCall_def
      repliedStatus_def textResponse_def Let_def)

text \<open>
  C8. A sign-in call whose \<open>args\<close> have a \<open>refreshToken\<close> field, arriving without a
  \<open>refreshToken\<close> cookie, is answered with status 200 and the JSON body
  \<open>{"tokens": null}\<close>; no backend call is made and no cookie is written.
\<close>

theorem proxy_signIn_without_refresh_cookie:
  assumes "requestMethod r = ''POST''" and "\<not> isCorsRequest e r"
    and "body r = Some b" and "destructure b = Inr (a, args)"
    and "stringValue a = Some ''auth:signIn''"
    and "getProp args ''refreshToken'' = Inr (Some supplied)"
    and "refreshToken c = None"
  shows "proxyAuthActionToConvex e r opts c =
     (Inr \<lparr>status = 200, content = Json (JObj [(''tokens'', JNull)]), location = None,
           cookies = noCookies\<rparr>, [])"
  using assms proxy_accepted [of r e b a args "''auth:signIn''" opts c]
  by (simp add: prepareCall_def stringifiedResponse_def)

theorem proxy_signIn_without_refresh_cookie_witness:
  "proxyAuthActionToConvex (fixedEnv False (Inl TransportFailure) None (Num 0))
     (exampleRequest ''POST'' (exampleUrl ''/api/auth'' []) []
        (Some (JObj [(''action'', JStr ''auth:signIn''),
                     (''args'', JObj [(''refreshToken'', JStr ''dummy'')])])))
     exampleOptions (exampleCookies (Some ''t1'') None None) =
     (Inr \<lparr>status = 200, content = Json (JObj [(''tokens'', JNull)]), location = None,
           cookies = noCookies\<rparr>, [])"
  using proxy_signIn_without_refresh_cookie
    [where r = "exampleRequest ''POST'' (exampleUrl ''/api/auth'' []) []
        (Some (JObj [(''action'', JStr ''auth:signIn''),
                     (''args'', JObj [(''refreshToken'', JStr ''dummy'')])]))"
      and e = "fixedEnv False (Inl TransportFailure) None (Num 0)"
      and b = "JObj [(''action'', JStr ''auth:signIn''),
             (''args'', JObj [(''refreshToken'', JStr ''dummy'')])]"
      and a = "Some (JStr ''auth:signIn'')"
      and args = "Some (JObj [(''refreshToken'', JStr ''dummy'')])"
      and supplied = "JStr ''dummy''" and c = "exampleCookies (Some ''t1'') None None"
      and opts = exampleOptions]
  by (simp add: exampleRequest_def fixedEnv_def exampleCookies_def)

text \<open>
  The substitution of the cookie-held refresh token.
\<close>

lemma map_of_assign: "map_of (assign k v fs) k = Some v"
  by (induction fs) auto

lemma assign_assign: "assign k x (assign k v fs) = assign k x fs"
  by (induction fs) auto

lemma prepareCall_substitutes:
  "prepareCall ''auth:signIn'' (Some (JObj (assign ''refreshToken'' supplied fs))) c =
     (case refreshToken c of
        None \<Rightarrow> Inr (ShortCircuit (stringifiedResponse (JObj [(''tokens'', JNull)])))
      | Some rt \<Rightarrow> Inr (Invoke (Some (JObj (assign ''refreshToken'' (JStr rt) fs))) None))"
  by (simp add: prepareCall_def map_of_assign assign_assign split: option.splits)

text \<open>
  C9. For a sign-in call whose \<open>args\<close> have a \<open>refreshToken\<close> field, whatever its value,
  the backend is called with that field replaced by the \<open>refreshToken\<close> cookie (and is not
  called when the cookie is missing). Two such calls that differ only in the supplied
  value make the same backend call and get the same reply: the supplied value is never
  forwarded.
\<close>

theorem proxy_ignores_supplied_refreshToken:
  assumes "requestMethod r1 = ''POST''" and "\<not> isCorsRequest e r1"
    and "requestMethod r2 = ''POST''" and "\<not> isCorsRequest e r2"
    and "body r1 = Some b1" and "body r2 = Some b2"
    and "destructure b1 = Inr (a1, Some (JObj (assign ''refreshToken'' supplied1 fs)))"
    and "destructure b2 = Inr (a2, Some (JObj (assign ''refreshToken'' supplied2 fs)))"
    and "stringValue a1 = Some ''auth:signIn''" and "stringValue a2 = Some ''auth:signIn''"
  shows "snd (proxyAuthActionToConvex e r1 opts c) =
           (case refreshToken c of
              None \<Rightarrow> []
            | Some rt \<Rightarrow>
                [FetchAction ''auth:signIn''
                   (Some (JObj (assign ''refreshToken'' (JStr rt) fs))) (convexUrl opts) None]) \<and>
         proxyAuthActionToConvex e r1 opts c = proxyAuthActionToConvex e r2 opts c"
proof -
  let ?args1 = "Some (JObj (assign ''refreshToken'' supplied1 fs))"
  let ?args2 = "Some (JObj (assign ''refreshToken'' supplied2 fs))"
  note run1 = proxy_accepted [of r1 e b1 a1 ?args1 "''auth:signIn''" opts c]
  note run2 = proxy_accepted [of r2 e b2 a2 ?args2 "''auth:signIn''" opts c]
  from assms run1 have calls1: "snd (proxyAuthActionToConvex e r1 opts c) =
           (case refreshToken c of
              None \<Rightarrow> []
            | Some rt \<Rightarrow>
                [FetchAction ''auth:signIn''
                   (Some (JObj (assign ''refreshToken'' (JStr rt) fs))) (convexUrl opts) None])"
    by (simp add: prepareCall_substitutes split: option.splits sum.splits)
  from assms run1 run2
  have "proxyAuthActionToConvex e r1 opts c = proxyAuthActionToConvex e r2 opts c"
    by (simp add: prepareCall_substitutes)
  with calls1 show ?thesis by simp
qed


theorem proxy_ignores_supplied_refreshToken_witness:
  "snd (proxyAuthActionToConvex (fixedEnv False (Inr None) None (Num 0))
     (exampleRequest ''POST'' (exampleUrl ''/api/auth'' []) []
        (Some (JObj [(''action'', JStr ''auth:signIn''),
                     (''args'', JObj [(''refreshToken'', JStr ''dummy'')])])))
     exampleOptions (exampleCookies (Some ''t1'') (Some ''r1'') None)) =
     [FetchAction ''auth:signIn'' (Some (JObj [(''refreshToken'', JStr ''r1'')])) None None] \<and>
   proxyAuthActionToConvex (fixedEnv False (Inr None) None (Num 0))
     (exampleRequest ''POST'' (exampleUrl ''/api/auth'' []) []
        (Some (JObj [(''action'', JStr ''auth:signIn''),
                     (''args'', JObj [(''refreshToken'', JStr ''dummy'')])])))
     exampleOptions (exampleCookies (Some ''t1'') (Some ''r1'') None) =
   proxyAuthActionToConvex (fixedEnv False (Inr None) None (Num 0))
     (exampleRequest ''POST'' (exampleUrl ''/api/auth'' []) []
        (Some (JObj [(''action'', JStr ''auth:signIn''),
                     (''args'', JObj [(''refreshToken'', JStr ''guess'')])])))
     exampleOptions (exampleCookies (Some ''t1'') (Some ''r1'') None)"
proof -
  have ev: "(case refreshToken (exampleCookies (Some ''t1'') (Some ''r1'') None) of
        None \<Rightarrow> []
      | Some rt \<Rightarrow>
          [FetchAction ''auth:signIn'' (Some (JObj (assign ''refreshToken'' (JStr rt) [])))
             (convexUrl exampleOptions) None]) =
      [FetchAction ''auth:signIn'' (Some (JObj [(''refreshToken'', JStr ''r1'')])) None None]"
    by (simp add: exampleCookies_def exampleOptions_def)
  have "assign ''refreshToken'' (JStr ''dummy'') [] = [(''refreshToken'', JStr ''dummy'')]"
    and "assign ''refreshToken'' (JStr ''guess'') [] = [(''refreshToken'', JStr ''guess'')]"
    by simp_all
  then show ?thesis
    using proxy_ignores_supplied_refreshToken
      [where ?r1.0 = "exampleRequest ''POST'' (exampleUrl ''/api/auth'' []) []
          (Some (JObj [(''action'', JStr ''auth:signIn''),
                       (''args'', JObj [(''refreshToken'', JStr ''dummy'')])]))"
        and ?r2.0 = "exampleRequest ''POST'' (exampleUrl ''/api/auth'' []) []
          (Some (JObj [(''action'', JStr ''auth:signIn''),
                       (''args'', JObj [(''refreshToken'', JStr ''guess'')])]))"
        and e = "fixedEnv False (Inr None) None (Num 0)"
        and ?b1.0 = "JObj [(''action'', JStr ''auth:signIn''),
                       (''args'', JObj [(''refreshToken'', JStr ''dummy'')])]"
        and ?b2.0 = "JObj [(''action'', JStr ''auth:signIn''),
                       (''args'', JObj [(''refreshToken'', JStr ''guess'')])]"
        and ?a1.0 = "Some (JStr ''auth:signIn'')" and ?a2.0 = "Some (JStr ''auth:signIn'')"
        and ?supplied1.0 = "JStr ''dummy''" and ?supplied2.0 = "JStr ''guess''"
        and fs = "[]" and opts = exampleOptions
        and c = "exampleCookies (Some ''t1'') (Some ''r1'') None", unfolded ev]
    by (simp (no_asm_use) add: exampleRequest_def fixedEnv_def)
qed

text \<open>
  What the proxy replies, and what its JSON bodies hold under the key \<open>refreshToken\<close>.
\<close>

lemma proxy_call_reply:
  assumes "snd (proxyAuthActionToConvex e r opts c) = [FetchAction action args' u bearer]"
  shows "fst (proxyAuthActionToConvex e r opts c) =
     (case fetchAction e (FetchAction action args' u bearer) of
        Inl err \<Rightarrow> Inl err
      | Inr untypedResult \<Rightarrow> shapeResponse action untypedResult)"
  using assms
  by (auto simp: proxyAuthActionToConvex_def Let_def
      split: if_splits option.splits sum.splits prod.splits prepared.splits)

lemma shapeResponse_refreshTokenFields:
  assumes "shapeResponse action untypedResult = Inr resp" and "content resp = Json v"
  shows "set (refreshTokenFields v) \<subseteq> {JStr ''dummy''}"
  using assms
  by (auto simp: shapeResponse_def jsonResponse_def setAuthCookies_def setVerifierCookie_def
      resultJson_def split: if_splits option.splits js.splits)

text \<open>A result with a \<open>redirect\<close> field is answered with the redirect, whatever else it has.\<close>

lemma redirect_takes_precedence:
  assumes "redirect result = Some rd"
  shows "shapeResponse ''auth:signIn'' (Some result) =
     Inr (setVerifierCookie (jsonResponse (JObj [(''redirect'', JStr rd)]))
            (resultVerifier result))"
  using assms by (simp add: shapeResponse_def)

lemma proxy_reply_cases:
  assumes "fst (proxyAuthActionToConvex e r opts c) = Inr resp"
  shows "(\<exists>t s. resp = textResponse t s) \<or>
     resp = stringifiedResponse (JObj [(''tokens'', JNull)]) \<or>
     (\<exists>action untypedResult. shapeResponse action untypedResult = Inr resp)"
  using assms
  by (auto simp: proxyAuthActionToConvex_def prepareCall_def Let_def
      split: if_splits option.splits sum.splits prod.splits prepared.splits)

text \<open>
  C1. When the backend answers the proxy's sign-in call with a tokens result (no
  \<open>redirect\<close>, a token pair that is not \<open>null\<close>), the JSON body sent to the client is
  \<open>{"tokens": {"token": t, "refreshToken": "dummy"}}\<close> with \<open>t\<close> the access token of the
  pair. In every JSON body the proxy sends, whatever the request and the backend's answer,
  a \<open>refreshToken\<close> field holds the literal \<open>dummy\<close> and nothing else.
\<close>

theorem proxy_refreshToken_placeholder:
  "(snd (proxyAuthActionToConvex e r opts c) = [FetchAction ''auth:signIn'' args' u bearer] \<and>
    fetchAction e (FetchAction ''auth:signIn'' args' u bearer) = Inr (Some result) \<and>
    redirect result = None \<and> tokens result = Val p \<longrightarrow>
      repliedJson (proxyAuthActionToConvex e r opts c) =
        Some (JObj [(''tokens'', JObj [(''token'', JStr (pairToken p)),
                                       (''refreshToken'', JStr ''dummy'')])])) \<and>
   (repliedJson (proxyAuthActionToConvex e r opts c) = Some v \<longrightarrow>
      set (refreshTokenFields v) \<subseteq> {JStr ''dummy''})"
proof (intro conjI impI)
  assume h: "snd (proxyAuthActionToConvex e r opts c) =
      [FetchAction ''auth:signIn'' args' u bearer] \<and>
    fetchAction e (FetchAction ''auth:signIn'' args' u bearer) = Inr (Some result) \<and>
    redirect result = None \<and> tokens result = Val p"
  then have "fst (proxyAuthActionToConvex e r opts c) =
      shapeResponse ''auth:signIn'' (Some result)"
    using proxy_call_reply [of e r opts c "''auth:signIn''" args' u bearer] by simp
  with h show "repliedJson (proxyAuthActionToConvex e r opts c) =
        Some (JObj [(''tokens'', JObj [(''token'', JStr (pairToken p)),
                                       (''refreshToken'', JStr ''dummy'')])])"
    by (simp add: repliedJson_def shapeResponse_def setAuthCookies_def jsonResponse_def)
next
  assume "repliedJson (proxyAuthActionToConvex e r opts c) = Some v"
  then obtain resp where resp: "fst (proxyAuthActionToConvex e r opts c) = Inr resp"
    and v: "content resp = Json v"
    by (auto simp: repliedJson_def split: sum.splits content.splits)
  from proxy_reply_cases [OF resp] v show "set (refreshTokenFields v) \<subseteq> {JStr ''dummy''}"
  proof (elim disjE exE)
    fix t s assume "resp = textResponse t s"
    with v show ?thesis by (simp add: textResponse_def)
  next
    assume "resp = stringifiedResponse (JObj [(''tokens'', JNull)])"
    with v show ?thesis by (auto simp: stringifiedResponse_def)
  next
    fix action untypedResult
    assume "shapeResponse action untypedResult = Inr resp"
    then show ?thesis using v by (rule shapeResponse_refreshTokenFields)
  qed
qed

theorem proxy_refreshToken_placeholder_witness:
  "snd (proxyAuthActionToConvex
     (fixedEnv False (Inr (Some (exampleResult None None (Val (examplePair ''t2'' ''r2''))))) None (Num 0))
     (exampleRequest ''POST'' (exampleUrl ''/api/auth'' []) []
        (Some (JObj [(''action'', JStr ''auth:signIn''),
                     (''args'', JObj [(''refreshToken'', JStr ''dummy'')])])))
     exampleOptions (exampleCookies (Some ''t1'') (Some ''r1'') None)) =
     [FetchAction ''auth:signIn'' (Some (JObj [(''refreshToken'', JStr ''r1'')])) None None] \<and>
   repliedJson (proxyAuthActionToConvex
     (fixedEnv False (Inr (Some (exampleResult None None (Val (examplePair ''t2'' ''r2''))))) None (Num 0))
     (exampleRequest ''POST'' (exampleUrl ''/api/auth'' []) []
        (Some (JObj [(''action'', JStr ''auth:signIn''),
                     (''args'', JObj [(''refreshToken'', JStr ''dummy'')])])))
     exampleOptions (exampleCookies (Some ''t1'') (Some ''r1'') None)) =
     Some (JObj [(''tokens'', JObj [(''token'', JStr ''t2''),
                                    (''refreshToken'', JStr ''dummy'')])]) \<and>
   set (refreshTokenFields (JObj [(''tokens'', JObj [(''token'', JStr ''t2''),
                                    (''refreshToken'', JStr ''dummy'')])])) \<subseteq> {JStr ''dummy''}"
  using proxy_refreshToken_placeholder
    [where e = "fixedEnv False
          (Inr (Some (exampleResult None None (Val (examplePair ''t2'' ''r2''))))) None (Num 0)"
      and r = "exampleRequest ''POST'' (exampleUrl ''/api/auth'' []) []
        (Some (JObj [(''action'', JStr ''auth:signIn''),
                     (''args'', JObj [(''refreshToken'', JStr ''dummy'')])]))"
      and opts = exampleOptions and c = "exampleCookies (Some ''t1'') (Some ''r1'') None"
      and args' = "Some (JObj [(''refreshToken'', JStr ''r1'')])" and u = None and bearer = None
      and result = "exampleResult None None (Val (examplePair ''t2'' ''r2''))"
      and p = "examplePair ''t2'' ''r2''"
      and v = "JObj [(''tokens'', JObj [(''token'', JStr ''t2''),
                                    (''refreshToken'', JStr ''dummy'')])]"]
  by (simp add: exampleRequest_def fixedEnv_def exampleCookies_def exampleOptions_def
      exampleResult_def examplePair_def proxyAuthActionToConvex_def prepareCall_def Let_def
      shapeResponse_def setAuthCookies_def jsonResponse_def repliedJson_def)

section \<open>Properties of the request authenticator\<close>

lemma validateCors_cors:
  "isCorsRequest e r \<Longrightarrow>
     validateCors e r c = \<lparr>token = None, refreshToken = None, verifier = None\<rparr>"
  by (simp add: validateCors_def)

lemma getRefreshedTokens_no_cookies:
  "getRefreshedTokens e \<lparr>token = None, refreshToken = None, verifier = None\<rparr> = (Undefined, [])"
  by (simp add: getRefreshedTokens_def)

text \<open>
  C2. For a request that the classifier marks as cross-origin, \<open>validateCors\<close>, the first
  step of the authenticator, sets \<open>token\<close>, \<open>refreshToken\<close> and \<open>verifier\<close> of the cookie
  view to \<open>null\<close>. Everything after it reads that view: the refresh scheduler finds no
  cookies, the view left behind is empty, and the whole run is the same for any two
  incoming cookie states.
\<close>

theorem cors_request_reads_no_cookies:
  assumes "isCorsRequest e r"
  shows "validateCors e r c = \<lparr>token = None, refreshToken = None, verifier = None\<rparr> \<and>
     view (handleAuthenticationInRequest e r c) =
       \<lparr>token = None, refreshToken = None, verifier = None\<rparr> \<and>
     getRefreshedTokens e (validateCors e r c) = (Undefined, []) \<and>
     handleAuthenticationInRequest e r c = handleAuthenticationInRequest e r c'"
proof -
  have v: "validateCors e r c = \<lparr>token = None, refreshToken = None, verifier = None\<rparr>"
    and v': "validateCors e r c' = \<lparr>token = None, refreshToken = None, verifier = None\<rparr>"
    using assms by (simp_all add: validateCors_cors)
  have "view (handleAuthenticationInRequest e r c) = validateCors e r c"
    by (simp add: handleAuthenticationInRequest_def Let_def split: prod.splits sum.splits)
  moreover have "handleAuthenticationInRequest e r c = handleAuthenticationInRequest e r c'"
    by (simp add: handleAuthenticationInRequest_def v v')
  ultimately show ?thesis
    using v getRefreshedTokens_no_cookies by simp
qed

theorem cors_request_reads_no_cookies_witness:
  "isCorsRequest (fixedEnv True (Inl TransportFailure) None (Num 0))
     (exampleRequest ''GET'' (exampleUrl ''/page'' []) [(''origin'', ''https://evil.example'')] None) \<and>
   view (handleAuthenticationInRequest (fixedEnv True (Inl TransportFailure) None (Num 0))
     (exampleRequest ''GET'' (exampleUrl ''/page'' []) [(''origin'', ''https://evil.example'')] None)
     (exampleCookies (Some ''t1'') (Some ''r1'') (Some ''v1''))) =
     \<lparr>token = None, refreshToken = None, verifier = None\<rparr> \<and>
   handleAuthenticationInRequest (fixedEnv True (Inl TransportFailure) None (Num 0))
     (exampleRequest ''GET'' (exampleUrl ''/page'' []) [(''origin'', ''https://evil.example'')] None)
     (exampleCookies (Some ''t1'') (Some ''r1'') (Some ''v1'')) =
   handleAuthenticationInRequest (fixedEnv True (Inl TransportFailure) None (Num 0))
     (exampleRequest ''GET'' (exampleUrl ''/page'' []) [(''origin'', ''https://evil.example'')] None)
     (exampleCookies None None None)"
proof -
  have cors: "isCorsRequest (fixedEnv True (Inl TransportFailure) None (Num 0))
     (exampleRequest ''GET'' (exampleUrl ''/page'' []) [(''origin'', ''https://evil.example'')] None)"
    by (simp add: fixedEnv_def)
  from cors cors_request_reads_no_cookies
    [OF cors, where c = "exampleCookies (Some ''t1'') (Some ''r1'') (Some ''v1'')"
      and c' = "exampleCookies None None None"]
  show ?thesis by blast
qed

subsection \<open>Refresh scheduling\<close>

lemma refresh_due_iff:
  assumes "exp_claim d = Num (of_int ex)" and "iat_claim d = Num (of_int ia)"
    and "now e = Num (of_int t)"
    and "\<bar>ex\<bar> \<le> 4000000000000" and "\<bar>ia\<bar> \<le> 4000000000000"
    and "0 \<le> t" and "t \<le> 8640000000000000"
  shows "num_gt (num_mul (exp_claim d) (Num 1000)) (minimumExpiration e d) \<longleftrightarrow>
     ex * 1000 > t + min 60000 (max 10000 ((ex - ia) * 100))"
proof -
  have lit: "Num 1000 = Num (of_int 1000)" "Num 10000 = Num (of_int 10000)"
    "Num 60000 = Num (of_int 60000)"
    by simp_all
  have mulex: "num_mul (exp_claim d) (Num 1000) = Num (of_int (ex * 1000))"
    unfolding assms(1) lit by (rule num_mul_int) (use assms(4) in linarith)
  have mulia: "num_mul (iat_claim d) (Num 1000) = Num (of_int (ia * 1000))"
    unfolding assms(2) lit by (rule num_mul_int) (use assms(5) in linarith)
  have "num_sub (Num (of_int (ex * 1000))) (Num (of_int (ia * 1000))) =
      Num (of_int (ex * 1000 - ia * 1000))"
    by (rule num_sub_int) (use assms(4,5) in linarith)
  then have total: "totalTokenLifetimeMs d = Num (of_int (10 * ((ex - ia) * 100)))"
    by (simp add: totalTokenLifetimeMs_def mulex mulia algebra_simps)
  have tenth: "num_div10 (totalTokenLifetimeMs d) = Num (of_int ((ex - ia) * 100))"
    unfolding total by (rule num_div10_int) (use assms(4,5) in \<open>simp add: abs_le_iff\<close>)
  have bound: "10000 \<le> min 60000 (max 10000 ((ex - ia) * 100))"
    "min 60000 (max 10000 ((ex - ia) * 100)) \<le> (60000::int)"
    by simp_all
  have "num_add (Num (of_int t)) (Num (of_int (min 60000 (max 10000 ((ex - ia) * 100))))) =
      Num (of_int (t + min 60000 (max 10000 ((ex - ia) * 100))))"
    by (rule num_add_int) (use assms(6,7) bound in linarith)
  then have "minimumExpiration e d =
      Num (of_int (t + min 60000 (max 10000 ((ex - ia) * 100))))"
    unfolding minimumExpiration_def tenth assms(3)
      REQUIRED_TOKEN_LIFETIME_MS_def MINIMUM_REQUIRED_TOKEN_LIFETIME_MS_def lit
      Math_max_int Math_min_int .
  with mulex show ?thesis by (simp only: num_gt_int)
qed

lemma getRefreshedTokens_decoded:
  assumes "token c = Some t" and "refreshToken c = Some rt" and "decodeToken e t = Some d"
  shows "getRefreshedTokens e c =
     (if num_gt (num_mul (exp_claim d) (Num 1000)) (minimumExpiration e d)
      then (Undefined, [])
      else (case refreshAttempt e rt of
              Inr x \<Rightarrow> (x, [refreshCall rt])
            | Inl err \<Rightarrow> (Null, [refreshCall rt])))"
  using assms by (simp add: getRefreshedTokens_def split: sum.splits)

text \<open>
  A decoded token without \<open>exp\<close> or without \<open>iat\<close> makes the comparison one with \<open>NaN\<close>,
  which is false: the refresh call is always made.
\<close>

lemma missing_claim_always_refreshes:
  assumes "token c = Some t" and "refreshToken c = Some rt" and "decodeToken e t = Some d"
    and "exp_claim d = NaN \<or> iat_claim d = NaN"
  shows "snd (getRefreshedTokens e c) = [refreshCall rt]"
proof -
  from assms(4)
  have "\<not> num_gt (num_mul (exp_claim d) (Num 1000)) (minimumExpiration e d)"
  proof
    assume "exp_claim d = NaN"
    then show ?thesis by (simp add: NaN_propagates)
  next
    assume "iat_claim d = NaN"
    then show ?thesis
      by (simp add: minimumExpiration_def totalTokenLifetimeMs_def NaN_propagates)
  qed
  then show ?thesis
    using getRefreshedTokens_decoded [OF assms(1,2,3)] by (simp split: sum.splits)
qed

lemma getRefreshedTokens_calls:
  "snd (getRefreshedTokens e c) = [] \<or>
   (\<exists>rt. refreshToken c = Some rt \<and> snd (getRefreshedTokens e c) = [refreshCall rt])"
  by (auto simp: getRefreshedTokens_def split: option.splits sum.splits)

text \<open>
  C3, as amended. For a decodable access token whose \<open>exp\<close> and \<open>iat\<close> are integers of
  magnitude at most \<open>4 * 10\<^sup>1\<^sup>2\<close>, with both the \<open>token\<close> and the \<open>refreshToken\<close> cookie
  present and a clock that reads an integer number of milliseconds between 0 and
  \<open>8.64 * 10\<^sup>1\<^sup>5\<close> (the range of \<open>Date.now()\<close>), the refresh call is made exactly when
  \<open>exp * 1000 \<le> now + min 60000 (max 10000 (totalLifetimeMs / 10))\<close>, with
  \<open>totalLifetimeMs = (exp - iat) * 1000\<close>. In particular a token with 1000 seconds of total
  lifetime is refreshed exactly when 60 seconds or less remain: a tenth of its lifetime is
  100 seconds, which the cap of one minute cuts to 60.
\<close>

theorem refresh_threshold:
  assumes "token c = Some tk" and "refreshToken c = Some rt" and "jwtDecode e tk = Some d"
    and "exp_claim d = Num (of_int ex)" and "iat_claim d = Num (of_int ia)"
    and "now e = Num (of_int t)"
    and "\<bar>ex\<bar> \<le> 4000000000000" and "\<bar>ia\<bar> \<le> 4000000000000"
    and "0 \<le> t" and "t \<le> 8640000000000000"
  shows "snd (getRefreshedTokens e c) =
           (if (of_int ex :: rat) * 1000 \<le>
                 of_int t + min 60000 (max 10000 ((of_int ex - of_int ia) * 1000 / 10))
            then [refreshCall rt] else []) \<and>
         (ex - ia = 1000 \<longrightarrow>
            (snd (getRefreshedTokens e c) = [refreshCall rt] \<longleftrightarrow> ex * 1000 - t \<le> 60000))"
proof -
  have d: "decodeToken e tk = Some d"
    using assms(3) by (simp add: decodeToken_def)
  have "(of_int t :: rat) + min 60000 (max 10000 ((of_int ex - of_int ia) * 1000 / 10)) =
      of_int (t + min 60000 (max 10000 ((ex - ia) * 100)))"
    by (simp add: min_def max_def)
  then have exact: "(of_int ex :: rat) * 1000 \<le>
        of_int t + min 60000 (max 10000 ((of_int ex - of_int ia) * 1000 / 10)) \<longleftrightarrow>
      ex * 1000 \<le> t + min 60000 (max 10000 ((ex - ia) * 100))"
    by (metis of_int_le_iff of_int_mult of_int_numeral)
  have calls: "snd (getRefreshedTokens e c) =
      (if ex * 1000 \<le> t + min 60000 (max 10000 ((ex - ia) * 100))
       then [refreshCall rt] else [])"
    using getRefreshedTokens_decoded [OF assms(1,2) d]
      refresh_due_iff [OF assms(4,5,6,7,8,9,10)]
    by (auto split: sum.splits)
  have "ex - ia = 1000 \<Longrightarrow>
      (snd (getRefreshedTokens e c) = [refreshCall rt] \<longleftrightarrow> ex * 1000 - t \<le> 60000)"
    unfolding calls by auto
  with calls exact show ?thesis by simp
qed

theorem refresh_threshold_witness:
  "snd (getRefreshedTokens
          (fixedEnv False (Inl TransportFailure) (Some (examplePayload (Num 1000) (Num 0)))
             (Num 940000))
          (exampleCookies (Some ''t1'') (Some ''r1'') None)) = [refreshCall ''r1''] \<and>
   ((1000::int) - 0 = 1000 \<and> (1000::int) * 1000 - 940000 \<le> 60000)"
  using refresh_threshold
    [where e = "fixedEnv False (Inl TransportFailure)
                  (Some (examplePayload (Num 1000) (Num 0))) (Num 940000)"
      and c = "exampleCookies (Some ''t1'') (Some ''r1'') None"
      and tk = "''t1''" and rt = "''r1''" and d = "examplePayload (Num 1000) (Num 0)"
      and ex = 1000 and ia = 0 and t = 940000]
  by (simp add: fixedEnv_def exampleCookies_def examplePayload_def)

text \<open>
  A token with 1000 seconds of total lifetime and 80 seconds left (less than 100) is not
  refreshed. And a token whose \<open>exp\<close> and \<open>iat\<close> are both \<open>2\<^sup>1\<^sup>0\<^sup>2\<^sup>0\<close> is refreshed although
  its \<open>exp * 1000\<close> is far beyond \<open>now + 10000\<close>: the product overflows to infinity, the
  lifetime is \<open>NaN\<close>, and the comparison with \<open>NaN\<close> is false.
\<close>

theorem refresh_threshold_counterexample:
  "(1000::rat) - 0 = 1000 \<and> (1000::rat) * 1000 - 920000 \<le> 100 * 1000 \<and>
   snd (getRefreshedTokens
          (fixedEnv False (Inl TransportFailure) (Some (examplePayload (Num 1000) (Num 0)))
             (Num 920000))
          (exampleCookies (Some ''t1'') (Some ''r1'') None)) = [] \<and>
   \<not> (hugeSeconds * 1000 \<le>
        920000 + min 60000 (max 10000 ((hugeSeconds - hugeSeconds) * 1000 / 10))) \<and>
   snd (getRefreshedTokens
          (fixedEnv False (Inl TransportFailure)
             (Some (examplePayload (Num hugeSeconds) (Num hugeSeconds))) (Num 920000))
          (exampleCookies (Some ''t1'') (Some ''r1'') None)) = [refreshCall ''r1'']"
proof -
  have inf: "toDouble (hugeSeconds * 1000) = PosInfinity"
    by (rule toDouble_overflow) (rule hugeSeconds_overflows)
  have big: "snd (getRefreshedTokens
          (fixedEnv False (Inl TransportFailure)
             (Some (examplePayload (Num hugeSeconds) (Num hugeSeconds))) (Num 920000))
          (exampleCookies (Some ''t1'') (Some ''r1'') None)) = [refreshCall ''r1'']"
    by (simp add: getRefreshedTokens_def refreshAttempt_def decodeToken_def
        minimumExpiration_def totalTokenLifetimeMs_def num_gt_def num_less_def num_mul_def
        num_add_def num_sub_def num_neg_def num_div10_def Math_min_def Math_max_def inf
        fixedEnv_def exampleCookies_def examplePayload_def)
  have small: "snd (getRefreshedTokens
          (fixedEnv False (Inl TransportFailure) (Some (examplePayload (Num 1000) (Num 0)))
             (Num 920000))
          (exampleCookies (Some ''t1'') (Some ''r1'') None)) = []"
    by (simp add: getRefreshedTokens_def refreshAttempt_def num_eval fixedEnv_def
        exampleCookies_def examplePayload_def)
  have "\<not> (hugeSeconds * 1000 \<le>
        920000 + min 60000 (max 10000 ((hugeSeconds - hugeSeconds) * 1000 / 10)))"
    using hugeSeconds_large by simp
  with small big show ?thesis by simp
qed

text \<open>
  C5, as amended. When the scheduler makes the refresh call, a result with a concrete
  token pair yields that pair; a result with \<open>tokens: null\<close>, a call that throws, and a
  result without a \<open>tokens\<close> field all yield \<open>null\<close> (outcome invalid). The error raised
  for the missing field is raised inside the \<open>try\<close> block, whose \<open>catch\<close> turns it into
  \<open>null\<close>; it does not leave the scheduler.
\<close>

theorem refresh_outcomes:
  assumes "token c = Some t" and "refreshToken c = Some rt" and "decodeToken e t = Some d"
    and "\<not> num_gt (num_mul (exp_claim d) (Num 1000)) (minimumExpiration e d)"
  shows "getRefreshedTokens e c =
     ((case fetchAction e (refreshCall rt) of
         Inl err \<Rightarrow> Null
       | Inr None \<Rightarrow> Null
       | Inr (Some result) \<Rightarrow>
           (case tokens result of Undefined \<Rightarrow> Null | Null \<Rightarrow> Null | Val p \<Rightarrow> Val p)),
      [refreshCall rt])"
  using getRefreshedTokens_decoded [OF assms(1,2,3)] assms(4)
  by (auto simp: refreshAttempt_def split: sum.splits option.splits js.splits if_splits)

theorem refresh_outcomes_witness:
  "getRefreshedTokens
     (fixedEnv False (Inr (Some (exampleResult None None Undefined)))
        (Some (examplePayload (Num 1000) (Num 0))) (Num 990000))
     (exampleCookies (Some ''t1'') (Some ''r1'') None) = (Null, [refreshCall ''r1'']) \<and>
   getRefreshedTokens
     (fixedEnv False (Inl TransportFailure) (Some (examplePayload (Num 1000) (Num 0))) (Num 990000))
     (exampleCookies (Some ''t1'') (Some ''r1'') None) = (Null, [refreshCall ''r1'']) \<and>
   getRefreshedTokens
     (fixedEnv False (Inr (Some (exampleResult None None (Val (examplePair ''t2'' ''r2'')))))
        (Some (examplePayload (Num 1000) (Num 0))) (Num 990000))
     (exampleCookies (Some ''t1'') (Some ''r1'') None) =
     (Val (examplePair ''t2'' ''r2''), [refreshCall ''r1''])"
  using
    refresh_outcomes
      [where e = "fixedEnv False (Inr (Some (exampleResult None None Undefined)))
                    (Some (examplePayload (Num 1000) (Num 0))) (Num 990000)"
        and c = "exampleCookies (Some ''t1'') (Some ''r1'') None" and t = "''t1''"
        and rt = "''r1''" and d = "examplePayload (Num 1000) (Num 0)"]
    refresh_outcomes
      [where e = "fixedEnv False (Inl TransportFailure)
                    (Some (examplePayload (Num 1000) (Num 0))) (Num 990000)"
        and c = "exampleCookies (Some ''t1'') (Some ''r1'') None" and t = "''t1''"
        and rt = "''r1''" and d = "examplePayload (Num 1000) (Num 0)"]
    refresh_outcomes
      [where e = "fixedEnv False
                    (Inr (Some (exampleResult None None (Val (examplePair ''t2'' ''r2'')))))
                    (Some (examplePayload (Num 1000) (Num 0))) (Num 990000)"
        and c = "exampleCookies (Some ''t1'') (Some ''r1'') None" and t = "''t1''"
        and rt = "''r1''" and d = "examplePayload (Num 1000) (Num 0)"]
  by (simp add: fixedEnv_def exampleCookies_def examplePayload_def exampleResult_def
      num_eval)

text \<open>
  A backend result without a \<open>tokens\<close> field: the \<open>try\<close> block raises, and the scheduler
  returns \<open>null\<close>.
\<close>

theorem refresh_outcomes_counterexample:
  "fetchAction
     (fixedEnv False (Inr (Some (exampleResult None None Undefined)))
        (Some (examplePayload (Num 1000) (Num 0))) (Num 990000))
     (refreshCall ''r1'') = Inr (Some (exampleResult None None Undefined)) \<and>
   tokens (exampleResult None None Undefined) = Undefined \<and>
   refreshAttempt
     (fixedEnv False (Inr (Some (exampleResult None None Undefined)))
        (Some (examplePayload (Num 1000) (Num 0))) (Num 990000)) ''r1'' =
     Inl (InvalidResult ''Invalid `signIn` action result for token refresh'') \<and>
   getRefreshedTokens
     (fixedEnv False (Inr (Some (exampleResult None None Undefined)))
        (Some (examplePayload (Num 1000) (Num 0))) (Num 990000))
     (exampleCookies (Some ''t1'') (Some ''r1'') None) = (Null, [refreshCall ''r1''])"
  by (simp add: getRefreshedTokens_def refreshAttempt_def fixedEnv_def exampleCookies_def
      examplePayload_def exampleResult_def
      num_eval)

subsection \<open>Code exchange\<close>

text \<open>An empty \<open>code\<close> parameter is falsy: it does not start the code exchange.\<close>

lemma empty_code_not_exchanged:
  assumes "searchParams_get (url r) ''code'' = Some []"
  shows "\<not> codeExchangeRequested r"
  using assms by (simp add: codeExchangeRequested_def)

lemma handleAuthenticationInRequest_exchange:
  assumes "codeExchangeRequested r"
  shows "handleAuthenticationInRequest e r c0 =
     \<lparr>returned =
        Redirect (setAuthCookies (redirectResponse (searchParams_delete (url r) ''code''))
          (case exchangeAttempt e (the (searchParams_get (url r) ''code''))
                  (verifier (validateCors e r c0)) of
             Inr t \<Rightarrow> t | Inl err \<Rightarrow> None)),
      view = validateCors e r c0,
      calls = snd (getRefreshedTokens e (validateCors e r c0)) @
              [exchangeCall (the (searchParams_get (url r) ''code''))
                 (verifier (validateCors e r c0))]\<rparr>"
  using assms
  by (simp add: handleAuthenticationInRequest_def Let_def split: prod.splits sum.splits)

lemma handleAuthenticationInRequest_plain:
  assumes "\<not> codeExchangeRequested r"
  shows "handleAuthenticationInRequest e r c0 =
     \<lparr>returned = RefreshTokens (fst (getRefreshedTokens e (validateCors e r c0))),
      view = validateCors e r c0,
      calls = snd (getRefreshedTokens e (validateCors e r c0))\<rparr>"
  using assms
  by (simp add: handleAuthenticationInRequest_def Let_def split: prod.splits)

text \<open>
  C7, as amended. For a GET request whose \<open>accept\<close> header contains \<open>text/html\<close> and
  whose \<open>code\<close> query parameter has a value that is not empty, the authenticator returns a
  redirect to the same URL without its \<open>code\<close> parameters, whatever the backend answers.
  With a concrete token pair the redirect writes the pair to the auth cookies; when the
  call throws or the result has no \<open>tokens\<close> (and also for \<open>tokens: null\<close>) it clears all
  three auth cookies.
\<close>

theorem code_exchange_redirects:
  assumes "codeExchangeRequested r"
  shows "returned (handleAuthenticationInRequest e r c0) =
     Redirect
       \<lparr>status = 307, content = Text [],
        location = Some (searchParams_delete (url r) ''code''),
        cookies =
          (case fetchAction e (exchangeCall (the (searchParams_get (url r) ''code''))
                                 (verifier (validateCors e r c0))) of
             Inl err \<Rightarrow> clearedCookies
           | Inr None \<Rightarrow> clearedCookies
           | Inr (Some result) \<Rightarrow>
               (case tokens result of
                  Undefined \<Rightarrow> clearedCookies
                | Null \<Rightarrow> clearedCookies
                | Val p \<Rightarrow> pairCookies p))\<rparr> \<and>
     searchParams_get (searchParams_delete (url r) ''code'') ''code'' = None \<and>
     origin (searchParams_delete (url r) ''code'') = origin (url r) \<and>
     pathname (searchParams_delete (url r) ''code'') = pathname (url r) \<and>
     searchParams (searchParams_delete (url r) ''code'') =
       filter (\<lambda>p. fst p \<noteq> ''code'') (searchParams (url r))"
proof -
  have "map_of (filter (\<lambda>p. fst p \<noteq> ''code'') ps) ''code'' = None" for ps :: "(string \<times> string) list"
    by (induction ps) auto
  then have gone: "searchParams_get (searchParams_delete (url r) ''code'') ''code'' = None"
    by (simp add: searchParams_get_def searchParams_delete_def)
  have "returned (handleAuthenticationInRequest e r c0) =
     Redirect
       \<lparr>status = 307, content = Text [],
        location = Some (searchParams_delete (url r) ''code''),
        cookies =
          (case fetchAction e (exchangeCall (the (searchParams_get (url r) ''code''))
                                 (verifier (validateCors e r c0))) of
             Inl err \<Rightarrow> clearedCookies
           | Inr None \<Rightarrow> clearedCookies
           | Inr (Some result) \<Rightarrow>
               (case tokens result of
                  Undefined \<Rightarrow> clearedCookies
                | Null \<Rightarrow> clearedCookies
                | Val p \<Rightarrow> pairCookies p))\<rparr>"
    unfolding handleAuthenticationInRequest_exchange [OF assms]
    by (simp add: exchangeAttempt_def setAuthCookies_def redirectResponse_def noCookies_def
        clearedCookies_def pairCookies_def split: sum.splits option.splits js.splits)
  with gone show ?thesis
    by (simp add: searchParams_delete_def)
qed

theorem code_exchange_redirects_witness:
  "codeExchangeRequested
     (exampleRequest ''GET'' (exampleUrl ''/cb'' [(''code'', ''abc123'')])
        [(''accept'', ''text/html'')] None) \<and>
   returned (handleAuthenticationInRequest
     (fixedEnv False (Inr (Some (exampleResult None None (Val (examplePair ''t2'' ''r2'')))))
        None (Num 0))
     (exampleRequest ''GET'' (exampleUrl ''/cb'' [(''code'', ''abc123'')])
        [(''accept'', ''text/html'')] None)
     (exampleCookies None None (Some ''v1''))) =
     Redirect \<lparr>status = 307, content = Text [], location = Some (exampleUrl ''/cb'' []),
                cookies = pairCookies (examplePair ''t2'' ''r2'')\<rparr> \<and>
   returned (handleAuthenticationInRequest
     (fixedEnv False (Inl TransportFailure) None (Num 0))
     (exampleRequest ''GET'' (exampleUrl ''/cb'' [(''code'', ''abc123'')])
        [(''accept'', ''text/html'')] None)
     (exampleCookies None None (Some ''v1''))) =
     Redirect \<lparr>status = 307, content = Text [], location = Some (exampleUrl ''/cb'' []),
                cookies = clearedCookies\<rparr> \<and>
   returned (handleAuthenticationInRequest
     (fixedEnv False (Inr (Some (exampleResult None None Undefined))) None (Num 0))
     (exampleRequest ''GET'' (exampleUrl ''/cb'' [(''code'', ''abc123'')])
        [(''accept'', ''text/html'')] None)
     (exampleCookies None None (Some ''v1''))) =
     Redirect \<lparr>status = 307, content = Text [], location = Some (exampleUrl ''/cb'' []),
                cookies = clearedCookies\<rparr>"
proof -
  have q: "codeExchangeRequested
     (exampleRequest ''GET'' (exampleUrl ''/cb'' [(''code'', ''abc123'')])
        [(''accept'', ''text/html'')] None)"
    by (simp add: codeExchangeRequested_def searchParams_get_def headers_get_def
        exampleRequest_def exampleUrl_def)
  from q
    code_exchange_redirects [OF q, where e = "fixedEnv False
        (Inr (Some (exampleResult None None (Val (examplePair ''t2'' ''r2''))))) None (Num 0)"
      and ?c0.0 = "exampleCookies None None (Some ''v1'')"]
    code_exchange_redirects [OF q, where e = "fixedEnv False (Inl TransportFailure) None (Num 0)"
      and ?c0.0 = "exampleCookies None None (Some ''v1'')"]
    code_exchange_redirects [OF q, where e = "fixedEnv False
        (Inr (Some (exampleResult None None Undefined))) None (Num 0)"
      and ?c0.0 = "exampleCookies None None (Some ''v1'')"]
  show ?thesis
    by (simp add: fixedEnv_def exampleResult_def exampleRequest_def exampleUrl_def
        searchParams_delete_def)
qed

text \<open>
  A GET navigation that accepts \<open>text/html\<close> and has a \<open>code\<close> parameter with an empty
  value is not redirected: the empty string is falsy, no exchange call is made, and the
  authenticator returns the refresh outcome.
\<close>

theorem code_exchange_redirects_counterexample:
  "requestMethod (exampleRequest ''GET'' (exampleUrl ''/cb'' [(''code'', [])])
        [(''accept'', ''text/html'')] None) = ''GET'' \<and>
   headers_get (exampleRequest ''GET'' (exampleUrl ''/cb'' [(''code'', [])])
        [(''accept'', ''text/html'')] None) ''accept'' = Some ''text/html'' \<and>
   searchParams_get (url (exampleRequest ''GET'' (exampleUrl ''/cb'' [(''code'', [])])
        [(''accept'', ''text/html'')] None)) ''code'' = Some [] \<and>
   handleAuthenticationInRequest
     (fixedEnv False (Inr (Some (exampleResult None None (Val (examplePair ''t2'' ''r2'')))))
        None (Num 0))
     (exampleRequest ''GET'' (exampleUrl ''/cb'' [(''code'', [])])
        [(''accept'', ''text/html'')] None)
     (exampleCookies None None (Some ''v1'')) =
     \<lparr>returned = RefreshTokens Undefined, view = exampleCookies None None (Some ''v1''),
      calls = []\<rparr>"
  by (simp add: handleAuthenticationInRequest_def Let_def codeExchangeRequested_def
      searchParams_get_def headers_get_def exampleRequest_def exampleUrl_def
      validateCors_def getRefreshedTokens_def fixedEnv_def exampleCookies_def)

subsection \<open>Backend calls per request\<close>

text \<open>
  C4, as amended. The action proxy makes at most one backend call per request, and so
  does the refresh scheduler. The authenticator makes the scheduler's calls and then, for
  a request that meets the condition of the code exchange, the code-exchange call as
  well: at most two backend calls per request, the refresh call first.
\<close>

theorem backend_calls_per_request:
  "length (snd (proxyAuthActionToConvex e r opts c)) \<le> 1 \<and>
   length (snd (getRefreshedTokens e c)) \<le> 1 \<and>
   calls (handleAuthenticationInRequest e r c) =
     snd (getRefreshedTokens e (validateCors e r c)) @
     (if codeExchangeRequested r
      then [exchangeCall (the (searchParams_get (url r) ''code''))
              (verifier (validateCors e r c))]
      else []) \<and>
   length (calls (handleAuthenticationInRequest e r c)) \<le> 2"
proof -
  have proxy: "length (snd (proxyAuthActionToConvex e r opts c)) \<le> 1"
    by (auto simp: proxyAuthActionToConvex_def Let_def
        split: if_splits option.splits sum.splits prod.splits prepared.splits)
  have refresh: "length (snd (getRefreshedTokens e c')) \<le> 1" for c'
    using getRefreshedTokens_calls [of e c'] by auto
  have auth: "calls (handleAuthenticationInRequest e r c) =
     snd (getRefreshedTokens e (validateCors e r c)) @
     (if codeExchangeRequested r
      then [exchangeCall (the (searchParams_get (url r) ''code''))
              (verifier (validateCors e r c))]
      else [])"
    by (cases "codeExchangeRequested r")
      (simp_all add: handleAuthenticationInRequest_exchange handleAuthenticationInRequest_plain)
  have "length (calls (handleAuthenticationInRequest e r c)) \<le> 2"
    unfolding auth using refresh [of "validateCors e r c"] by simp
  with proxy refresh [of c] auth show ?thesis by blast
qed

text \<open>
  A GET navigation with a \<open>code\<close> parameter whose access token is due for refresh makes
  two backend calls: the refresh call and the code-exchange call.
\<close>

theorem backend_calls_per_request_counterexample:
  "codeExchangeRequested
     (exampleRequest ''GET'' (exampleUrl ''/cb'' [(''code'', ''abc123'')])
        [(''accept'', ''text/html'')] None) \<and>
   calls (handleAuthenticationInRequest
     (fixedEnv False (Inr (Some (exampleResult None None (Val (examplePair ''t2'' ''r2'')))))
        (Some (examplePayload (Num 1000) (Num 0))) (Num 990000))
     (exampleRequest ''GET'' (exampleUrl ''/cb'' [(''code'', ''abc123'')])
        [(''accept'', ''text/html'')] None)
     (exampleCookies (Some ''t1'') (Some ''r1'') (Some ''v1''))) =
     [refreshCall ''r1'', exchangeCall ''abc123'' (Some ''v1'')]"
  by (simp add: handleAuthenticationInRequest_def Let_def codeExchangeRequested_def
      searchParams_get_def headers_get_def exampleRequest_def exampleUrl_def
      validateCors_def exchangeAttempt_def
      getRefreshedTokens_def refreshAttempt_def fixedEnv_def exampleCookies_def
      examplePayload_def exampleResult_def
      num_eval)

end
